theory Spec2Isabelle
  imports Complex_Main "HOL-Library.Log_Nat"
begin

section \<open>Python values\<close>

text \<open>
  The program is a single Python module, \<^verbatim>\<open>app.py\<close>. Its shift and user records are
  JSON dictionaries. A key of such a dictionary is missing, maps to \<^verbatim>\<open>null\<close>
  (\<^verbatim>\<open>None\<close>), or maps to a value; the three cases behave differently under
  \<^verbatim>\<open>d[k]\<close>, \<^verbatim>\<open>d.get(k)\<close> and \<^verbatim>\<open>d.get(k, default)\<close>, so the model keeps them apart.
  A value that may be \<^verbatim>\<open>None\<close> is an \<open>option\<close>.
\<close>

datatype error = KeyError | TypeError | ValueError | AttributeError

datatype 'a field = Absent | Null | Val 'a

definition bindE :: "error + 'a \<Rightarrow> ('a \<Rightarrow> error + 'b) \<Rightarrow> error + 'b" where
  "bindE m f = (case m of Inl e \<Rightarrow> Inl e | Inr x \<Rightarrow> f x)"

definition dict_get :: "'a field \<Rightarrow> 'a option \<Rightarrow> 'a option" where
  \<comment> \<open>\<^verbatim>\<open>d.get(k, default)\<close>: the default is used for a missing key only.\<close>
  "dict_get f d = (case f of Absent \<Rightarrow> d | Null \<Rightarrow> None | Val v \<Rightarrow> Some v)"

definition dict_item :: "'a field \<Rightarrow> error + 'a option" where
  \<comment> \<open>\<^verbatim>\<open>d[k]\<close>\<close>
  "dict_item f = (case f of Absent \<Rightarrow> Inl KeyError | Null \<Rightarrow> Inr None | Val v \<Rightarrow> Inr (Some v))"

definition truthy_bool :: "bool option \<Rightarrow> bool" where
  "truthy_bool b = (b = Some True)"

definition truthy_str :: "string option \<Rightarrow> bool" where
  "truthy_str s = (case s of None \<Rightarrow> False | Some x \<Rightarrow> x \<noteq> [])"

definition py_in :: "'a \<Rightarrow> 'a list option \<Rightarrow> error + bool" where
  \<comment> \<open>\<^verbatim>\<open>x in xs\<close>; \<^verbatim>\<open>x in None\<close> raises TypeError.\<close>
  "py_in x xs = (case xs of None \<Rightarrow> Inl TypeError | Some l \<Rightarrow> Inr (x \<in> set l))"

subsection \<open>Floats\<close>

text \<open>
  Python floats are IEEE binary64 numbers. A finite float is modelled by the rational it
  denotes, and every arithmetic operation rounds its exact result to the nearest number
  with a 53-bit significand, ties to even (\<open>fl\<close>). Overflow to infinity, subnormal
  numbers and NaN are outside the model: the hours it computes lie between 0 and 24.
\<close>

definition round_half_even :: "rat \<Rightarrow> int" where
  "round_half_even x =
     (let f = \<lfloor>x\<rfloor>; r = x - of_int f
      in if r < 1 / 2 then f else if 1 / 2 < r then f + 1 else if even f then f else f + 1)"

definition floor_log2 :: "rat \<Rightarrow> int" where
  \<comment> \<open>for \<open>0 < x\<close>, the \<open>e\<close> with \<open>2 powi e \<le> x < 2 powi (e + 1)\<close>\<close>
  "floor_log2 x =
     (let k = bitlen (fst (quotient_of x)) - bitlen (snd (quotient_of x))
      in if 2 powi k \<le> x then k else k - 1)"

definition fl :: "rat \<Rightarrow> rat" where
  "fl x =
     (if x = 0 then 0
      else let e = floor_log2 \<bar>x\<bar> - 52
           in sgn x * (of_int (round_half_even (\<bar>x\<bar> / 2 powi e)) * 2 powi e))"

definition fadd :: "rat \<Rightarrow> rat \<Rightarrow> rat" where
  "fadd a b = fl (a + b)"

definition fsub :: "rat \<Rightarrow> rat \<Rightarrow> rat" where
  "fsub a b = fl (a - b)"

definition fmul :: "rat \<Rightarrow> rat \<Rightarrow> rat" where
  "fmul a b = fl (a * b)"

definition fdiv :: "rat \<Rightarrow> rat \<Rightarrow> rat" where
  \<comment> \<open>the program divides by the constant 3600 only\<close>
  "fdiv a b = fl (a / b)"

subsection \<open>Times of day\<close>

text \<open>
  \<^verbatim>\<open>datetime.strptime(s, "%H:%M")\<close> matches the whole string against
  \<^verbatim>\<open>(2[0-3]|[0-1]\d|\d):([0-5]\d|\d)\<close>: an hour of one or two digits below 24, a colon, a
  minute of one or two digits below 60. It raises TypeError for \<^verbatim>\<open>None\<close> and ValueError
  for any other string. The result is a datetime on 1 January 1900; the model keeps its
  minute of the day.
\<close>

definition is_digit :: "char \<Rightarrow> bool" where
  "is_digit c = (48 \<le> (of_char c :: nat) \<and> (of_char c :: nat) \<le> 57)"

definition digit_val :: "char \<Rightarrow> nat" where
  "digit_val c = of_char c - 48"

fun parse_1or2 :: "string \<Rightarrow> nat option" where
  "parse_1or2 [a] = (if is_digit a then Some (digit_val a) else None)"
| "parse_1or2 [a, b] =
     (if is_digit a \<and> is_digit b then Some (10 * digit_val a + digit_val b) else None)"
| "parse_1or2 _ = None"

definition strptime_HM :: "string option \<Rightarrow> error + nat" where
  "strptime_HM x =
     (case x of
        None \<Rightarrow> Inl TypeError
      | Some s \<Rightarrow>
          (case (parse_1or2 (takeWhile (\<lambda>c. c \<noteq> CHR '':'') s),
                 dropWhile (\<lambda>c. c \<noteq> CHR '':'') s) of
             (Some h, _ # r) \<Rightarrow>
               (case parse_1or2 r of
                  Some m \<Rightarrow> if h < 24 \<and> m < 60 then Inr (60 * h + m) else Inl ValueError
                | None \<Rightarrow> Inl ValueError)
           | _ \<Rightarrow> Inl ValueError))"

definition wf_hhmm :: "string \<Rightarrow> bool" where
  \<comment> \<open>a well-formed HH:MM string: two digits, a colon, two digits, hour below 24, minute below 60\<close>
  "wf_hhmm s =
     (case s of
        [a, b, c, d, e] \<Rightarrow>
          is_digit a \<and> is_digit b \<and> c = CHR '':'' \<and> is_digit d \<and> is_digit e \<and>
          10 * digit_val a + digit_val b < 24 \<and> 10 * digit_val d + digit_val e < 60
      | _ \<Rightarrow> False)"

section \<open>DurationCalculator\<close>

text \<open>
  \<^verbatim>\<open>get_shift_duration\<close> (app.py, lines 117 to 125). \<open>duration_minutes\<close> is the
  timedelta \<^verbatim>\<open>end - start\<close> after the midnight adjustment, in minutes;
  \<^verbatim>\<open>total_seconds()\<close> is exact, the division by 3600 rounds.
\<close>

definition duration_minutes :: "nat \<Rightarrow> nat \<Rightarrow> int" where
  "duration_minutes start end =
     (if end < start then (int end + 1440) - int start else int end - int start)"

definition get_shift_duration :: "string option \<Rightarrow> string option \<Rightarrow> error + rat" where
  "get_shift_duration start_time_str end_time_str =
     bindE (strptime_HM start_time_str) (\<lambda>start.
     bindE (strptime_HM end_time_str) (\<lambda>end.
       Inr (fdiv (of_int (duration_minutes start end * 60)) 3600)))"

section \<open>Data model\<close>

text \<open>
  A shift record has the keys the program writes (app.py, lines 905 to 917 and 1313 to
  1327). Dates are stored as ISO strings; the model keeps the day number that
  \<^verbatim>\<open>strptime(..., '%Y-%m-%d')\<close> followed by \<^verbatim>\<open>toordinal()\<close> gives, so a present date
  is always a non-empty, parseable one. Amounts and rates are floats.
\<close>

record shift =
  date :: "int field"
  shift_type :: "string field"
  planned_start :: "string field"
  planned_end :: "string field"
  assigned_employees :: "string list field"
  assigned_admin :: "string field"
  status :: "string field"
  approved :: "bool field"
  actual_start :: "string field"
  actual_end :: "string field"
  manual_amount :: "rat field"
  description :: "string field"

record user =
  username :: string
  role :: string
  primary_shift :: string
  secondary_shift :: "string field"
  hourly_rate :: rat

text \<open>
  The shift store is the dictionary of \<^verbatim>\<open>shifts.json\<close>, in insertion order.
  \<open>dict_set\<close> is \<^verbatim>\<open>d[k] = v\<close>: an existing key keeps its place, a new key goes last.
\<close>

type_synonym store = "(string \<times> shift) list"

fun dict_set :: "string \<Rightarrow> 'v \<Rightarrow> (string \<times> 'v) list \<Rightarrow> (string \<times> 'v) list" where
  "dict_set k v [] = [(k, v)]"
| "dict_set k v ((k', v') # r) = (if k' = k then (k, v) # r else (k', v') # dict_set k v r)"

definition dict_lookup :: "string \<Rightarrow> (string \<times> 'v) list \<Rightarrow> error + 'v" where
  "dict_lookup k d = (case map_of d k of None \<Rightarrow> Inl KeyError | Some v \<Rightarrow> Inr v)"

definition to_field :: "'a option \<Rightarrow> 'a field" where
  \<comment> \<open>storing a Python value under a key\<close>
  "to_field v = (case v of None \<Rightarrow> Null | Some x \<Rightarrow> Val x)"

section \<open>ShiftCatalog\<close>

definition SHIFT_TYPES :: "(string \<times> string \<times> string \<times> bool) list" where
  "SHIFT_TYPES =
     [(''morning'', ''06:00'', ''14:00'', True),
      (''late'', ''14:00'', ''22:00'', True),
      (''night'', ''22:00'', ''06:00'', True),
      (''weekend_morning'', ''06:00'', ''18:00'', False),
      (''weekend_night'', ''18:00'', ''06:00'', False)]"

definition SHIFT_COMPATIBILITY :: "(string \<times> string list) list" where
  "SHIFT_COMPATIBILITY =
     [(''morning'', [''weekend_morning'']),
      (''late'', [''weekend_night'']),
      (''night'', [''weekend_night'']),
      (''weekend_morning'', [''morning'']),
      (''weekend_night'', [''late'', ''night''])]"

section \<open>RestPeriodValidator\<close>

text \<open>
  The 12-hour downtime check of \<^verbatim>\<open>admin_manage_shifts\<close> (app.py, lines 856 to 880).
  A datetime is the number of minutes since the start of day 0.
\<close>

definition combine :: "int \<Rightarrow> nat \<Rightarrow> int" where
  "combine d t = d * 1440 + int t"

fun emp_shifts_of :: "string \<Rightarrow> shift list \<Rightarrow> error + shift list" where
  "emp_shifts_of emp_username [] = Inr []"
| "emp_shifts_of emp_username (s # ss) =
     bindE (py_in emp_username (dict_get (assigned_employees s) (Some []))) (\<lambda>b.
     bindE (emp_shifts_of emp_username ss) (\<lambda>r.
       Inr (if b \<and> dict_get (date s) None \<noteq> None then s # r else r)))"

definition strptime_date :: "int option \<Rightarrow> error + int" where
  \<comment> \<open>\<^verbatim>\<open>datetime.strptime(x, '%Y-%m-%d')\<close> on a stored date\<close>
  "strptime_date x = (case x of None \<Rightarrow> Inl TypeError | Some d \<Rightarrow> Inr d)"

definition shift_end_dt :: "shift \<Rightarrow> error + int" where
  "shift_end_dt s =
     bindE (dict_item (date s)) (\<lambda>dv.
     bindE (strptime_date dv) (\<lambda>shift_end_date.
     bindE (strptime_HM (dict_get (planned_end s) (Some ''00:00''))) (\<lambda>end_time.
     bindE (strptime_HM (dict_get (planned_start s) (Some ''00:00''))) (\<lambda>start_time.
       let end_dt = combine shift_end_date end_time
       in Inr (if end_dt \<le> combine shift_end_date start_time then end_dt + 1440 else end_dt)))))"

fun latest_end_loop :: "int \<Rightarrow> shift list \<Rightarrow> int option \<Rightarrow> error + int option" where
  "latest_end_loop planned_start_dt [] latest_end_dt = Inr latest_end_dt"
| "latest_end_loop planned_start_dt (s # ss) latest_end_dt =
     bindE (shift_end_dt s) (\<lambda>end_dt.
       latest_end_loop planned_start_dt ss
         (if end_dt \<le> planned_start_dt
          then (case latest_end_dt of
                  None \<Rightarrow> Some end_dt
                | Some l \<Rightarrow> if end_dt > l then Some end_dt else Some l)
          else latest_end_dt))"

definition hours_diff :: "int \<Rightarrow> int \<Rightarrow> rat" where
  \<comment> \<open>\<^verbatim>\<open>(planned_start_dt - latest_end_dt).total_seconds() / 3600\<close>\<close>
  "hours_diff planned_start_dt latest_end_dt =
     fdiv (of_int ((planned_start_dt - latest_end_dt) * 60)) 3600"

definition downtime_violation :: "store \<Rightarrow> int \<Rightarrow> string \<Rightarrow> error + bool" where
  \<comment> \<open>one round of the loop over the selected employees: is this one appended to the violations?\<close>
  "downtime_violation shifts planned_start_dt emp_username =
     bindE (emp_shifts_of emp_username (map snd shifts)) (\<lambda>emp_shifts.
     bindE (latest_end_loop planned_start_dt emp_shifts None) (\<lambda>latest_end_dt.
       Inr (case latest_end_dt of
              None \<Rightarrow> False
            | Some l \<Rightarrow> hours_diff planned_start_dt l < 12)))"

fun downtime_violations :: "store \<Rightarrow> int \<Rightarrow> string list \<Rightarrow> error + string list" where
  "downtime_violations shifts planned_start_dt [] = Inr []"
| "downtime_violations shifts planned_start_dt (e # es) =
     bindE (downtime_violation shifts planned_start_dt e) (\<lambda>v.
     bindE (downtime_violations shifts planned_start_dt es) (\<lambda>r.
       Inr (if v then e # r else r)))"

section \<open>ShiftLifecycle\<close>

subsection \<open>Creation\<close>

text \<open>
  \<^verbatim>\<open>admin_manage_shifts\<close> (app.py, lines 756 to 921) is a Streamlit page: the script
  runs once for each interaction, reads the widgets and may write the store. The model
  takes the widget values as a record and returns what the page reported together with
  the store after the run. An exception ends the run before anything is saved.
  The select box of line 794 returns one of the options it is given, so a form
  whose choice is not among them cannot be submitted (\<open>Not_offered\<close>). Python gives the
  list of line 785 in the set's own order; the model lists it in order of first
  mention. The table of existing shifts rendered after line 921 writes nothing and is
  left out.
\<close>

record shift_form =
  f_shift_date :: int
  f_selected_employees :: "string list"
  f_shift_type :: string
  f_planned_start_time :: string
  f_planned_end_time :: string
  f_selected_admin :: string
  f_initial_shift_status :: string
  f_create_clicked :: bool

datatype outcome =
    Raised error
  | Warn_select_employees
  | Not_offered
  | Idle
  | Err_no_employee
  | Err_downtime
  | Created string
  | Responded
  | Approved
  | Err_invalid_time
  | Err_fill_fields
  | Warn_zero_amount
  | Added string

definition employee_lookup :: "user list \<Rightarrow> string \<Rightarrow> error + user" where
  \<comment> \<open>\<^verbatim>\<open>employees[emp_username]\<close>, the dictionary being keyed by each user's username\<close>
  "employee_lookup employees emp_username =
     (case find (\<lambda>u. username u = emp_username) (rev employees) of
        None \<Rightarrow> Inl KeyError
      | Some u \<Rightarrow> Inr u)"

definition allowed_of :: "user \<Rightarrow> string list" where
  \<comment> \<open>lines 780 to 782: the primary shift, and the secondary one when it is set and not 'None'\<close>
  "allowed_of emp =
     (if truthy_str (dict_get (secondary_shift emp) None) \<and>
         dict_get (secondary_shift emp) None \<noteq> Some ''None''
      then [primary_shift emp] @ (case secondary_shift emp of Val x \<Rightarrow> [x] | _ \<Rightarrow> [])
      else [primary_shift emp])"

fun allowed_shift_sets :: "user list \<Rightarrow> string list \<Rightarrow> error + string list list" where
  "allowed_shift_sets employees [] = Inr []"
| "allowed_shift_sets employees (e # es) =
     bindE (employee_lookup employees e) (\<lambda>emp.
     bindE (allowed_shift_sets employees es) (\<lambda>r.
       Inr (allowed_of emp # r)))"

definition available_shift_types :: "user list \<Rightarrow> string list \<Rightarrow> error + string list" where
  \<comment> \<open>lines 775 to 788; line 785 is \<^verbatim>\<open>list(set.union(*allowed_shift_sets))\<close>\<close>
  "available_shift_types employees selected_employees =
     (if selected_employees \<noteq> []
      then bindE (allowed_shift_sets employees selected_employees) (\<lambda>sets.
             Inr (remdups (concat sets)))
      else Inr [])"

fun str_nat :: "nat \<Rightarrow> string" where
  "str_nat n =
     (if n < 10 then [char_of (48 + n)]
      else str_nat (n div 10) @ [char_of (48 + n mod 10)])"

definition new_shift :: "shift_form \<Rightarrow> shift" where
  \<comment> \<open>lines 895 to 917\<close>
  "new_shift form =
     (let approved_status = (f_initial_shift_status form = ''approved'')
      in \<lparr> date = Val (f_shift_date form),
           shift_type = Val (f_shift_type form),
           planned_start = Val (f_planned_start_time form),
           planned_end = Val (f_planned_end_time form),
           assigned_employees = Val (f_selected_employees form),
           assigned_admin =
             (if f_selected_admin form \<noteq> ''None'' then Val (f_selected_admin form) else Null),
           status = Val (f_initial_shift_status form),
           approved = Val approved_status,
           actual_start = (if approved_status then Val (f_planned_start_time form) else Null),
           actual_end = (if approved_status then Val (f_planned_end_time form) else Null),
           manual_amount = Absent,
           description = Absent \<rparr>)"

definition admin_manage_shifts :: "user list \<Rightarrow> shift_form \<Rightarrow> store \<Rightarrow> outcome \<times> store" where
  "admin_manage_shifts users form shifts =
     (let employees = filter (\<lambda>u. role u = ''employee'') users;
          selected_employees = f_selected_employees form
      in case available_shift_types employees selected_employees of
           Inl e \<Rightarrow> (Raised e, shifts)
         | Inr available \<Rightarrow>
             if available = [] then (Warn_select_employees, shifts)
             else if f_shift_type form \<notin> set available then (Not_offered, shifts)
             else
               (case dict_lookup (f_shift_type form) SHIFT_TYPES of
                  Inl e \<Rightarrow> (Raised e, shifts)
                | Inr defaults \<Rightarrow>
                    let time_format_valid =
                          (isl (strptime_HM (Some (f_planned_start_time form))) = False \<and>
                           isl (strptime_HM (Some (f_planned_end_time form))) = False)
                    in case strptime_HM (Some (f_planned_start_time form)) of
                         Inl e \<Rightarrow> (Raised e, shifts)
                       | Inr t \<Rightarrow>
                           (case downtime_violations shifts (combine (f_shift_date form) t)
                                   selected_employees of
                              Inl e \<Rightarrow> (Raised e, shifts)
                            | Inr violations \<Rightarrow>
                                if f_create_clicked form \<and> time_format_valid
                                then
                                  if selected_employees = [] then (Err_no_employee, shifts)
                                  else if violations \<noteq> [] then (Err_downtime, shifts)
                                  else
                                    let new_shift_id = ''shift_'' @ str_nat (length shifts + 1)
                                    in (Created new_shift_id,
                                        dict_set new_shift_id (new_shift form) shifts)
                                else (Idle, shifts))))"

subsection \<open>Accept and decline\<close>

text \<open>
  \<^verbatim>\<open>employee_shifts\<close> (app.py, lines 638 to 668) shows an Accept and a Decline button for
  each pending shift of the logged-in employee that is not a manual payroll entry; a
  click writes the status and nothing else.
\<close>

fun user_shifts_of :: "string \<Rightarrow> store \<Rightarrow> error + store" where
  "user_shifts_of u [] = Inr []"
| "user_shifts_of u ((k, v) # r) =
     bindE (py_in u (dict_get (assigned_employees v) (Some []))) (\<lambda>b.
     bindE (user_shifts_of u r) (\<lambda>rest.
       Inr (if b then (k, v) # rest else rest)))"

definition is_pending :: "shift \<Rightarrow> bool" where
  "is_pending v =
     (dict_get (status v) None = Some ''pending'' \<and>
      dict_get (shift_type v) None \<noteq> Some ''manual_payroll'')"

definition employee_respond :: "string \<Rightarrow> string \<Rightarrow> bool \<Rightarrow> store \<Rightarrow> outcome \<times> store" where
  "employee_respond u shift_id accept shifts =
     (case user_shifts_of u shifts of
        Inl e \<Rightarrow> (Raised e, shifts)
      | Inr user_shifts \<Rightarrow>
          (case map_of (filter (\<lambda>(k, v). is_pending v) user_shifts) shift_id of
             None \<Rightarrow> (Idle, shifts)
           | Some v \<Rightarrow>
               (Responded,
                dict_set shift_id
                  (v\<lparr>status := Val (if accept then ''accepted'' else ''declined'')\<rparr>) shifts)))"

subsection \<open>Approval\<close>

text \<open>
  \<^verbatim>\<open>admin_approve_shifts\<close> (app.py, lines 970 to 1036) shows an Approve button for each
  shift whose status is accepted or pending, that is not approved and is not a manual
  payroll entry. Full approval records the planned times as the actual ones; partial
  approval records the two text inputs, after checking that both parse. The argument
  \<open>partial\<close> is \<open>None\<close> for full approval and the two inputs otherwise. The demo data
  that the page may add first (line 965) is a step of its own, \<open>dummy_shift\<close> below.
\<close>

definition pending_approval :: "shift \<Rightarrow> bool" where
  "pending_approval s =
     (dict_get (status s) None \<in> {Some ''accepted'', Some ''pending''} \<and>
      \<not> truthy_bool (dict_get (approved s) None) \<and>
      dict_get (shift_type s) None \<noteq> Some ''manual_payroll'')"

definition admin_approve_shift ::
  "string \<Rightarrow> (string \<times> string) option \<Rightarrow> store \<Rightarrow> outcome \<times> store" where
  "admin_approve_shift shift_id partial shifts =
     (case map_of (filter (\<lambda>(k, s). pending_approval s) shifts) shift_id of
        None \<Rightarrow> (Idle, shifts)
      | Some s \<Rightarrow>
          (case dict_item (planned_start s) of
             Inl e \<Rightarrow> (Raised e, shifts)
           | Inr ps \<Rightarrow>
               (case dict_item (planned_end s) of
                  Inl e \<Rightarrow> (Raised e, shifts)
                | Inr pe \<Rightarrow>
                    let actual_start_time = (case partial of None \<Rightarrow> ps | Some (a, b) \<Rightarrow> Some a);
                        actual_end_time = (case partial of None \<Rightarrow> pe | Some (a, b) \<Rightarrow> Some b);
                        time_valid =
                          (case partial of
                             None \<Rightarrow> True
                           | Some (a, b) \<Rightarrow>
                               isl (strptime_HM (Some a)) = False \<and>
                               isl (strptime_HM (Some b)) = False)
                    in if time_valid
                       then (Approved,
                             dict_set shift_id
                               (s\<lparr>approved := Val True,
                                  actual_start := to_field actual_start_time,
                                  actual_end := to_field actual_end_time,
                                  status := Val ''approved''\<rparr>) shifts)
                       else (Err_invalid_time, shifts))))"

subsection \<open>Manual payroll entries and demo data\<close>

text \<open>
  \<^verbatim>\<open>manual_add_payroll_entry\<close> (app.py, lines 1303 to 1330). The entry's key is built
  from the clock and a random number; the model takes it as an argument.
\<close>

definition manual_entry :: "string \<Rightarrow> string \<Rightarrow> int \<Rightarrow> string \<Rightarrow> rat \<Rightarrow> shift" where
  "manual_entry admin selected_user entry_date descr amount =
     \<lparr> date = Val entry_date,
       shift_type = Val ''manual_payroll'',
       planned_start = Val ''00:00'',
       planned_end = Val ''00:00'',
       assigned_employees = Val [selected_user],
       assigned_admin = Val admin,
       status = Val ''approved'',
       approved = Val True,
       actual_start = Val ''00:00'',
       actual_end = Val ''00:00'',
       manual_amount = Val amount,
       description = Val descr \<rparr>"

definition manual_add_payroll_entry ::
  "string \<Rightarrow> string \<Rightarrow> string \<Rightarrow> int \<Rightarrow> string \<Rightarrow> rat \<Rightarrow> store \<Rightarrow> outcome \<times> store" where
  "manual_add_payroll_entry manual_entry_id admin selected_user entry_date descr amount shifts =
     (if selected_user = [] \<or> descr = [] then (Err_fill_fields, shifts)
      else if amount = 0 then (Warn_zero_amount, shifts)
      else (Added manual_entry_id,
            dict_set manual_entry_id
              (manual_entry admin selected_user entry_date descr amount) shifts))"

text \<open>
  The records written by the demo-data generators: \<^verbatim>\<open>add_dummy_shift_data\<close> (lines 219
  to 252), \<^verbatim>\<open>generate_yearly_shifts_for_all_employees\<close> (lines 303 to 315 and 338 to
  350) and the dummy payroll of \<^verbatim>\<open>admin_employee_payroll\<close> (lines 1140 to 1174, the shape
  of a manual entry). Their random choices are arguments; the generated actual times
  come from \<^verbatim>\<open>strftime("%H:%M")\<close>, so they are strings.
\<close>

definition dummy_shift :: "int \<Rightarrow> string \<Rightarrow> string \<Rightarrow> string \<Rightarrow> string \<Rightarrow> string \<Rightarrow> string \<Rightarrow> shift" where
  "dummy_shift shift_date stype start_time end_time employee admin st =
     \<lparr> date = Val shift_date,
       shift_type = Val stype,
       planned_start = Val start_time,
       planned_end = Val end_time,
       assigned_employees = Val [employee],
       assigned_admin = Val admin,
       status = Val st,
       approved = Val False,
       actual_start = Null,
       actual_end = Null,
       manual_amount = Absent,
       description = Absent \<rparr>"

definition auto_shift ::
  "int \<Rightarrow> string \<Rightarrow> string \<Rightarrow> string \<Rightarrow> string \<Rightarrow> string option \<Rightarrow> string \<Rightarrow> string \<Rightarrow> shift" where
  "auto_shift shift_date stype start_time end_time employee admin a_start a_end =
     \<lparr> date = Val shift_date,
       shift_type = Val stype,
       planned_start = Val start_time,
       planned_end = Val end_time,
       assigned_employees = Val [employee],
       assigned_admin = to_field admin,
       status = Val ''approved'',
       approved = Val True,
       actual_start = Val a_start,
       actual_end = Val a_end,
       manual_amount = Absent,
       description = Absent \<rparr>"

text \<open>
  The stores the program can reach from the empty one. A generator's record and a manual
  entry are written under a fresh or an existing key alike (an over-approximation of the
  keys the program builds).
\<close>

inductive reachable :: "store \<Rightarrow> bool" where
  r_empty: "reachable []"
| r_create: "reachable st \<Longrightarrow> reachable (snd (admin_manage_shifts users form st))"
| r_respond: "reachable st \<Longrightarrow> reachable (snd (employee_respond u shift_id accept st))"
| r_approve: "reachable st \<Longrightarrow> reachable (snd (admin_approve_shift shift_id partial st))"
| r_manual: "reachable st \<Longrightarrow>
     reachable (snd (manual_add_payroll_entry k admin selected_user entry_date descr amount st))"
| r_dummy: "reachable st \<Longrightarrow> (stype, start_time, end_time, wd) \<in> set SHIFT_TYPES \<Longrightarrow>
     st' \<in> {''pending'', ''accepted''} \<Longrightarrow>
     reachable (dict_set k (dummy_shift d stype start_time end_time employee admin st') st)"
| r_auto: "reachable st \<Longrightarrow> (stype, start_time, end_time, wd) \<in> set SHIFT_TYPES \<Longrightarrow>
     reachable (dict_set k (auto_shift d stype start_time end_time employee admin a_start a_end) st)"
| r_dummy_payroll: "reachable st \<Longrightarrow>
     reachable (dict_set k (manual_entry admin selected_user d descr amount) st)"

section \<open>PayrollEngine\<close>

text \<open>
  \<^verbatim>\<open>calculate_pay\<close> (app.py, lines 127 to 137). The result is \<open>None\<close> when a manual
  entry's amount is \<^verbatim>\<open>null\<close>. The default of \<^verbatim>\<open>shift_data.get("actual_start",
  shift_data["planned_start"])\<close> is evaluated before the call, so a missing planned time
  raises KeyError whatever the actual time is.
\<close>

definition worked_times :: "shift \<Rightarrow> error + (string option \<times> string option)" where
  \<comment> \<open>lines 133 to 134 and 178 to 179\<close>
  "worked_times s =
     bindE (dict_item (planned_start s)) (\<lambda>ps.
     bindE (dict_item (planned_end s)) (\<lambda>pe.
       Inr (dict_get (actual_start s) ps, dict_get (actual_end s) pe)))"

definition calculate_pay :: "shift \<Rightarrow> rat \<Rightarrow> error + rat option" where
  "calculate_pay shift_data rate =
     (if truthy_bool (dict_get (approved shift_data) None)
      then
        if dict_get (shift_type shift_data) None = Some ''manual_payroll'' \<and>
           manual_amount shift_data \<noteq> Absent
        then dict_item (manual_amount shift_data)
        else
          bindE (worked_times shift_data) (\<lambda>(start_time, end_time).
          bindE (get_shift_duration start_time end_time) (\<lambda>hours.
            Inr (Some (fmul hours rate))))
      else Inr (Some 0))"

text \<open>
  A line of the detailed list (lines 166 to 192). The model keeps the numbers rather
  than their formatted text; formatting an amount that is \<^verbatim>\<open>None\<close> raises TypeError,
  and \<^verbatim>\<open>shift['shift_type'].replace\<close> raises AttributeError on \<^verbatim>\<open>None\<close>.
\<close>

datatype line_item =
    Manual_item "int option" rat "string option"
  | Regular_item "int option" string "string option" "string option"
      "string option" "string option" rat rat

definition format_pay :: "rat option \<Rightarrow> error + rat" where
  "format_pay pay = (case pay of None \<Rightarrow> Inl TypeError | Some p \<Rightarrow> Inr p)"

definition qualifies :: "string \<Rightarrow> int \<Rightarrow> int \<Rightarrow> shift \<Rightarrow> int \<Rightarrow> error + bool" where
  \<comment> \<open>the condition of lines 156 to 158, with Python's short-circuit order\<close>
  "qualifies u start_date end_date s shift_date =
     bindE (py_in u (dict_get (assigned_employees s) (Some []))) (\<lambda>b.
       Inr (b \<and> truthy_bool (dict_get (approved s) None) \<and>
            start_date \<le> shift_date \<and> shift_date \<le> end_date))"

definition payroll_line :: "shift \<Rightarrow> rat \<Rightarrow> error + (rat \<times> rat \<times> line_item)" where
  \<comment> \<open>lines 160 to 192 for one qualifying shift: its hours, its pay and its line\<close>
  "payroll_line s rate =
     bindE (calculate_pay s rate) (\<lambda>pay.
       if dict_get (shift_type s) None = Some ''manual_payroll''
       then
         bindE (dict_item (date s)) (\<lambda>d.
         bindE (format_pay pay) (\<lambda>p.
           Inr (0, p, Manual_item d p (dict_get (description s) (Some ''Manual Adjustment'')))))
       else
         bindE (worked_times s) (\<lambda>(start_time, end_time).
         bindE (get_shift_duration start_time end_time) (\<lambda>hours.
         bindE (dict_item (date s)) (\<lambda>d.
         bindE (dict_item (shift_type s)) (\<lambda>ty.
         bindE (case ty of None \<Rightarrow> Inl AttributeError | Some t \<Rightarrow> Inr t) (\<lambda>t.
         bindE (format_pay pay) (\<lambda>p.
           Inr (hours, p,
                Regular_item d t (dict_get (planned_start s) None) (dict_get (planned_end s) None)
                  (dict_get (actual_start s) (Some ''N/A''))
                  (dict_get (actual_end s) (Some ''N/A'')) hours p))))))))"

fun payroll_loop ::
  "string \<Rightarrow> rat \<Rightarrow> int \<Rightarrow> int \<Rightarrow> store \<Rightarrow> rat \<times> rat \<times> line_item list \<Rightarrow>
   error + (rat \<times> rat \<times> line_item list)" where
  "payroll_loop u rate start_date end_date [] acc = Inr acc"
| "payroll_loop u rate start_date end_date ((shift_id, s) # r) (total_hours, total_pay, detailed_shifts) =
     bindE (dict_item (date s)) (\<lambda>dv.
     bindE (strptime_date dv) (\<lambda>shift_date.
     bindE (qualifies u start_date end_date s shift_date) (\<lambda>q.
       if q
       then
         bindE (payroll_line s rate) (\<lambda>(hours, pay, item).
           payroll_loop u rate start_date end_date r
             (fadd total_hours hours, fadd total_pay pay, detailed_shifts @ [item]))
       else payroll_loop u rate start_date end_date r (total_hours, total_pay, detailed_shifts))))"

definition calculate_payroll_for_user ::
  "store \<Rightarrow> string \<Rightarrow> rat \<Rightarrow> int \<Rightarrow> int \<Rightarrow> error + (rat \<times> rat \<times> line_item list)" where
  "calculate_payroll_for_user shifts u rate start_date end_date =
     payroll_loop u rate start_date end_date shifts (0, 0, [])"

section \<open>The specification's rest rule\<close>

text \<open>
  The rest rule in the words of the specification: the true end instant of a shift is
  its date combined with its end time, plus 24 hours when the end is numerically at or
  before the start; a proposal is accepted when no true end instant is at or before the
  proposed start, or when the latest such instant precedes the start by at least 12
  hours (720 minutes).
\<close>

definition spec_true_end :: "int \<Rightarrow> nat \<Rightarrow> nat \<Rightarrow> int" where
  "spec_true_end d start end = combine d end + (if end \<le> start then 1440 else 0)"

definition spec_rest_ok :: "int list \<Rightarrow> int \<Rightarrow> bool" where
  "spec_rest_ok ends p =
     (let prior = filter (\<lambda>e. e \<le> p) ends
      in prior = [] \<or> 720 \<le> p - Max (set prior))"

definition assigned_to :: "string \<Rightarrow> shift \<Rightarrow> bool" where
  \<comment> \<open>the employee is among the shift's assigned employees\<close>
  "assigned_to e s = (case assigned_employees s of Val l \<Rightarrow> e \<in> set l | _ \<Rightarrow> False)"

definition has_times :: "shift \<Rightarrow> int \<times> nat \<times> nat \<Rightarrow> bool" where
  \<comment> \<open>the shift is dated \<open>d\<close> and its planned start and end, as the rest check reads them, parse to \<open>a\<close> and \<open>b\<close>\<close>
  "has_times s t =
     (case t of (d, a, b) \<Rightarrow>
        date s = Val d \<and>
        strptime_HM (dict_get (planned_start s) (Some ''00:00'')) = Inr a \<and>
        strptime_HM (dict_get (planned_end s) (Some ''00:00'')) = Inr b)"

text \<open>
  The value of the loop's variable \<^verbatim>\<open>latest_end_dt\<close> after it has gone through shifts whose
  end instants at or before the proposed start are \<open>prior\<close>, used to state the loop's
  invariant.
\<close>

definition merge_latest :: "int option \<Rightarrow> int list \<Rightarrow> int option" where
  "merge_latest acc prior =
     (if prior = [] then acc
      else case acc of None \<Rightarrow> Some (Max (set prior)) | Some l \<Rightarrow> Some (max l (Max (set prior))))"

section \<open>Predicates on stored records\<close>

definition present :: "'a field \<Rightarrow> bool" where
  \<comment> \<open>the key exists and its value is not \<^verbatim>\<open>null\<close>\<close>
  "present f = (case f of Val x \<Rightarrow> True | _ \<Rightarrow> False)"

definition is_approved :: "shift \<Rightarrow> bool" where
  \<comment> \<open>\<^verbatim>\<open>shift.get('approved')\<close> is true\<close>
  "is_approved s = truthy_bool (dict_get (approved s) None)"

definition is_manual :: "shift \<Rightarrow> bool" where
  \<comment> \<open>\<^verbatim>\<open>shift.get("shift_type") == "manual_payroll"\<close>\<close>
  "is_manual s = (dict_get (shift_type s) None = Some ''manual_payroll'')"

definition shift_ok :: "shift \<Rightarrow> bool" where
  \<comment> \<open>the invariant of the store: planned times are always there, an approved record
     has its actual times, a manual payroll entry has its amount\<close>
  "shift_ok s =
     (present (planned_start s) \<and> present (planned_end s) \<and>
      (is_approved s \<longrightarrow> present (actual_start s) \<and> present (actual_end s)) \<and>
      (is_manual s \<longrightarrow> present (manual_amount s)))"

definition readable :: "shift \<Rightarrow> bool" where
  \<comment> \<open>the two keys the payroll loop reads of every record do not make it raise\<close>
  "readable s = (present (date s) \<and> assigned_employees s \<noteq> Null)"

definition spec_qualifies :: "string \<Rightarrow> int \<Rightarrow> int \<Rightarrow> shift \<Rightarrow> bool" where
  \<comment> \<open>the specification's condition: the employee is among the assigned employees, the
     record is approved, and its date lies in the inclusive range\<close>
  "spec_qualifies u start_date end_date s =
     ((case assigned_employees s of Val l \<Rightarrow> u \<in> set l | _ \<Rightarrow> False) \<and>
      is_approved s \<and>
      (case date s of Val d \<Rightarrow> start_date \<le> d \<and> d \<le> end_date | _ \<Rightarrow> False))"

definition spec_time :: "string field \<Rightarrow> string field \<Rightarrow> string option" where
  \<comment> \<open>the actual time if present, else the planned time\<close>
  "spec_time actual planned =
     (case actual of Val a \<Rightarrow> Some a | _ \<Rightarrow> (case planned of Val p \<Rightarrow> Some p | _ \<Rightarrow> None))"

definition manual_amount_of :: "shift \<Rightarrow> rat" where
  \<comment> \<open>the fixed amount of a manual payroll entry\<close>
  "manual_amount_of s = (case manual_amount s of Val x \<Rightarrow> x | _ \<Rightarrow> 0)"

definition manual_item_of :: "shift \<Rightarrow> line_item" where
  \<comment> \<open>the line of a manual payroll entry: its date, its amount and its description\<close>
  "manual_item_of s =
     Manual_item (dict_get (date s) None) (manual_amount_of s)
       (dict_get (description s) (Some ''Manual Adjustment''))"

section \<open>Example data\<close>

definition emp_morning :: user where
  "emp_morning =
     \<lparr> username = ''emp1'', role = ''employee'', primary_shift = ''morning'',
       secondary_shift = Val ''weekend_morning'', hourly_rate = 20 \<rparr>"

definition emp_late :: user where
  "emp_late =
     \<lparr> username = ''emp2'', role = ''employee'', primary_shift = ''late'',
       secondary_shift = Val ''weekend_night'', hourly_rate = 20 \<rparr>"

definition form_both :: shift_form where
  \<comment> \<open>both employees selected for a morning shift on day 100\<close>
  "form_both =
     \<lparr> f_shift_date = 100, f_selected_employees = [''emp1'', ''emp2''],
       f_shift_type = ''morning'', f_planned_start_time = ''06:00'',
       f_planned_end_time = ''14:00'', f_selected_admin = ''None'',
       f_initial_shift_status = ''pending'', f_create_clicked = True \<rparr>"

definition form_short_rest :: shift_form where
  \<comment> \<open>the same form for day 101 from 14:00, eight hours after a night shift of day 100 ends\<close>
  "form_short_rest =
     form_both\<lparr> f_shift_date := 101, f_planned_start_time := ''14:00'',
                f_planned_end_time := ''22:00'' \<rparr>"

definition form_approved :: shift_form where
  \<comment> \<open>a morning shift of \<open>emp1\<close> on day 100, created as approved\<close>
  "form_approved =
     form_both\<lparr> f_selected_employees := [''emp1''], f_initial_shift_status := ''approved'' \<rparr>"

definition example_store :: store where
  \<comment> \<open>that shift, a bonus of 50 for \<open>emp1\<close> on the same day, and a pending night shift\<close>
  "example_store =
     [(''shift_1'', new_shift form_approved),
      (''manual_payroll_1'', manual_entry ''admin1'' ''emp1'' 100 ''Bonus'' 50),
      (''dummy_pending_1'', dummy_shift 100 ''night'' ''22:00'' ''06:00'' ''emp1'' ''admin1'' ''pending'')]"

definition shift_absent_actual :: shift where
  \<comment> \<open>an approved morning shift whose record has no actual-time keys\<close>
  "shift_absent_actual = (new_shift form_approved)\<lparr> actual_start := Absent, actual_end := Absent \<rparr>"

definition shift_null_actual :: shift where
  \<comment> \<open>an approved morning shift whose \<^verbatim>\<open>actual_start\<close> is \<^verbatim>\<open>null\<close>\<close>
  "shift_null_actual = (new_shift form_approved)\<lparr> actual_start := Null \<rparr>"

definition manual_store :: store where
  \<comment> \<open>two manual payroll entries of \<open>emp1\<close>, of 50 and 25\<close>
  "manual_store =
     [(''manual_payroll_1'', manual_entry ''admin1'' ''emp1'' 100 ''Bonus'' 50),
      (''manual_payroll_2'', manual_entry ''admin1'' ''emp1'' 101 ''Adjustment'' 25)]"

definition night_shift :: "int \<Rightarrow> string \<Rightarrow> shift" where
  \<comment> \<open>a night shift of \<open>emp1\<close> from 22:00 on day \<open>d\<close> to 06:00 on the next day\<close>
  "night_shift d st = dummy_shift d ''night'' ''22:00'' ''06:00'' ''emp1'' ''admin1'' st"

definition day_shift :: "int \<Rightarrow> string \<Rightarrow> shift" where
  \<comment> \<open>a morning shift of \<open>emp2\<close> from 06:00 to 14:00 on day \<open>d\<close>\<close>
  "day_shift d st = dummy_shift d ''morning'' ''06:00'' ''14:00'' ''emp2'' ''admin1'' st"

definition two_emp_store :: store where
  \<comment> \<open>a night shift of \<open>emp1\<close> on day 100 and a morning shift of \<open>emp2\<close> on day 101\<close>
  "two_emp_store =
     [(''shift_1'', night_shift 100 ''accepted''), (''shift_2'', day_shift 101 ''accepted'')]"

definition form_same_times :: shift_form where
  \<comment> \<open>a shift of \<open>emp1\<close> on day 100 from 08:00 to 08:00, created as approved\<close>
  "form_same_times =
     form_approved\<lparr> f_planned_start_time := ''08:00'', f_planned_end_time := ''08:00'' \<rparr>"

definition form_pending :: shift_form where
  \<comment> \<open>a morning shift of \<open>emp1\<close> on day 100, created as pending\<close>
  "form_pending = form_both\<lparr> f_selected_employees := [''emp1''] \<rparr>"

definition pending_store :: store where
  \<comment> \<open>the store after that shift has been created in the empty store\<close>
  "pending_store = snd (admin_manage_shifts [emp_morning] form_pending [])"

definition accepted_store :: store where
  \<comment> \<open>the store after \<open>emp1\<close> has accepted the shift\<close>
  "accepted_store = snd (employee_respond ''emp1'' ''shift_1'' True pending_store)"

definition approval_store :: store where
  \<comment> \<open>the store after the shift has been approved partially, from 06:30 to 13:45\<close>
  "approval_store =
     snd (admin_approve_shift ''shift_1'' (Some (''06:30'', ''13:45'')) accepted_store)"

definition tenths_store :: store where
  \<comment> \<open>three manual payroll entries of \<open>emp1\<close>, whose amounts are the floats 0.1, 0.2 and 0.3\<close>
  "tenths_store =
     [(''manual_payroll_1'', manual_entry ''admin1'' ''emp1'' 100 ''Bonus''
         (3602879701896397 / 36028797018963968)),
      (''manual_payroll_2'', manual_entry ''admin1'' ''emp1'' 101 ''Expense''
         (3602879701896397 / 18014398509481984)),
      (''manual_payroll_3'', manual_entry ''admin1'' ''emp1'' 102 ''Adjustment''
         (5404319552844595 / 18014398509481984))]"

section \<open>Properties of the building blocks\<close>

subsection \<open>Rounding\<close>


lemma round_half_even_err: "\<bar>of_int (round_half_even m) - m\<bar> \<le> 1 / 2"
proof -
  have "of_int \<lfloor>m\<rfloor> \<le> m" "m < of_int \<lfloor>m\<rfloor> + 1" by linarith+
  then show ?thesis
    by (auto simp: round_half_even_def Let_def abs_le_iff)
qed

lemma round_half_even_nonneg: "0 \<le> m \<Longrightarrow> 0 \<le> round_half_even m"
  by (auto simp: round_half_even_def Let_def)

lemma floor_log2_le:
  assumes "0 < x"
  shows "2 powi (floor_log2 x) \<le> x"
proof -
  obtain a b where q: "quotient_of x = (a, b)" by (cases "quotient_of x")
  have b: "0 < b" using q quotient_of_denom_pos by blast
  have x: "x = of_int a / of_int b" using q quotient_of_div by blast
  have a: "0 < a" using assms b x by (simp add: zero_less_divide_iff)
  define k where "k = bitlen a - bitlen b"
  show ?thesis
  proof (cases "2 powi k \<le> x")
    case True
    then show ?thesis by (simp add: floor_log2_def q k_def)
  next
    case False
    have la: "(2::int) ^ nat (bitlen a - 1) \<le> a" using bitlen_bounds[OF a] by simp
    have lb: "b < (2::int) ^ nat (bitlen b)" using bitlen_bounds[OF b] by simp
    have la1: "1 \<le> bitlen a" using a bitlen_eq_zero_iff[of a] bitlen_nonneg[of a] by linarith
    have ra: "(2::rat) powi (bitlen a - 1) \<le> of_int a"
    proof -
      have "(2::rat) powi (bitlen a - 1) = 2 ^ nat (bitlen a - 1)"
        using la1 by (simp add: power_int_def)
      also have "\<dots> = of_int (2 ^ nat (bitlen a - 1))" by simp
      also have "\<dots> \<le> of_int a" using la by (simp only: of_int_le_iff)
      finally show ?thesis .
    qed
    have rb: "of_int b \<le> (2::rat) powi (bitlen b)"
    proof -
      have "(of_int b :: rat) \<le> of_int (2 ^ nat (bitlen b))" using lb by (simp only: of_int_le_iff)
      also have "\<dots> = 2 powi (bitlen b)" using bitlen_nonneg[of b] by (simp add: power_int_def)
      finally show ?thesis .
    qed
    have "(2::rat) powi (k - 1) = 2 powi (bitlen a - 1) / 2 powi (bitlen b)"
      by (simp add: k_def power_int_diff)
    also have "\<dots> \<le> of_int a / 2 powi (bitlen b)"
      using ra by (simp add: divide_right_mono)
    also have "\<dots> \<le> of_int a / of_int b"
      using rb a b by (simp add: frac_le)
    finally have "(2::rat) powi (k - 1) \<le> x" using x by simp
    with False show ?thesis by (simp add: floor_log2_def q k_def)
  qed
qed

lemma fl_zero: "fl 0 = 0"
  by (simp add: fl_def)

lemma fl_nonneg: "0 \<le> x \<Longrightarrow> 0 \<le> fl x"
  by (auto simp: fl_def Let_def sgn_if intro!: mult_nonneg_nonneg round_half_even_nonneg)

lemma fl_rel_err: "\<bar>fl x - x\<bar> \<le> \<bar>x\<bar> / 2 ^ 53"
proof (cases "x = 0")
  case True
  then show ?thesis by (simp add: fl_def)
next
  case False
  define e where "e = floor_log2 \<bar>x\<bar> - 52"
  define p :: rat where "p = 2 powi e"
  define m where "m = \<bar>x\<bar> / p"
  have p: "0 < p" by (simp add: p_def)
  have flx: "fl x = sgn x * (of_int (round_half_even m) * p)"
    using False by (simp add: fl_def Let_def e_def p_def m_def)
  have xm: "x = sgn x * (m * p)" using p by (simp add: m_def sgn_if)
  have "fl x - x = sgn x * ((of_int (round_half_even m) - m) * p)"
    by (subst flx, subst (2) xm) (simp add: algebra_simps)
  hence "\<bar>fl x - x\<bar> = \<bar>of_int (round_half_even m) - m\<bar> * p"
    using False p by (simp add: abs_mult abs_sgn_eq)
  also have "\<dots> \<le> 1 / 2 * p"
    using round_half_even_err[of m] p by (simp add: mult_right_mono)
  also have "\<dots> = 2 powi (floor_log2 \<bar>x\<bar>) / 2 ^ 53"
    by (simp add: p_def e_def power_int_diff)
  also have "\<dots> \<le> \<bar>x\<bar> / 2 ^ 53"
    using floor_log2_le[of "\<bar>x\<bar>"] False by (simp add: divide_right_mono)
  finally show ?thesis .
qed


lemma fl_12: "fl 12 = 12"
  by code_simp

lemma hours_diff_lt_12:
  assumes "l \<le> p"
  shows "(hours_diff p l < 12) = (p - l < 720)"
proof -
  define x where "x = p - l"
  define y :: rat where "y = of_int x / 60"
  have x0: "0 \<le> x" using assms by (simp add: x_def)
  have "(of_int (x * 60) :: rat) / 3600 = of_int x / 60" by simp
  then have hd: "hours_diff p l = fl y"
    by (simp only: hours_diff_def fdiv_def x_def y_def)
  have y0: "0 \<le> y" using x0 by (simp add: y_def)
  have err: "\<bar>fl y - y\<bar> \<le> y / 2 ^ 53" using fl_rel_err[of y] y0 by simp
  consider "x < 720" | "x = 720" | "720 < x" by linarith
  then show ?thesis
  proof cases
    case 1
    then have "x \<le> 719" by simp
    then have "y \<le> 719 / 60" by (simp add: y_def)
    moreover have "fl y \<le> y + y / 2 ^ 53" using err by linarith
    ultimately have "fl y < 12" by simp
    then show ?thesis using 1 by (simp add: hd x_def)
  next
    case 2
    then have "y = 12" by (simp add: y_def)
    then show ?thesis using 2 by (simp add: hd x_def fl_12)
  next
    case 3
    then have "721 \<le> x" by simp
    then have "721 / 60 \<le> y" by (simp add: y_def)
    moreover have "y - y / 2 ^ 53 \<le> fl y" using err by linarith
    ultimately have "12 < fl y" by simp
    then show ?thesis using 3 by (simp add: hd x_def)
  qed
qed

subsection \<open>Parsing times\<close>

lemma is_digit_not_colon: "is_digit c \<Longrightarrow> c \<noteq> CHR '':''"
  by (auto simp: is_digit_def)

lemma digit_val_lt_10: "is_digit c \<Longrightarrow> digit_val c < 10"
  by (auto simp: is_digit_def digit_val_def)

lemma digit_val_inj: "is_digit c \<Longrightarrow> is_digit c' \<Longrightarrow> digit_val c = digit_val c' \<Longrightarrow> c = c'"
proof -
  assume a: "is_digit c" "is_digit c'" "digit_val c = digit_val c'"
  then have "(of_char c :: nat) = of_char c'"
    unfolding is_digit_def digit_val_def by linarith
  then show "c = c'" by (simp only: of_char_eq_iff)
qed

lemma split_60:
  assumes "60 * (h::nat) + m = 60 * h' + m'" "m < 60" "m' < 60"
  shows "h = h' \<and> m = m'"
proof -
  have "(60 * h + m) div 60 = (60 * h' + m') div 60" using assms(1) by simp
  then have "h = h'" using assms(2,3) by simp
  then show ?thesis using assms(1) by simp
qed

lemma split_10:
  assumes "10 * (h::nat) + m = 10 * h' + m'" "m < 10" "m' < 10"
  shows "h = h' \<and> m = m'"
proof -
  have "(10 * h + m) div 10 = (10 * h' + m') div 10" using assms(1) by simp
  then have "h = h'" using assms(2,3) by simp
  then show ?thesis using assms(1) by simp
qed

lemma minute_of_day_bound: "(h::nat) < 24 \<Longrightarrow> m < 60 \<Longrightarrow> 60 * h + m < 1440"
  by linarith

lemma strptime_HM_bound: "strptime_HM x = Inr t \<Longrightarrow> t < 1440"
  by (auto simp: strptime_HM_def split: option.splits list.splits if_splits)

lemma wf_hhmm_shape:
  assumes "wf_hhmm s"
  obtains a b d e where "s = [a, b, CHR '':'', d, e]" "is_digit a" "is_digit b" "is_digit d" "is_digit e"
    "10 * digit_val a + digit_val b < 24" "10 * digit_val d + digit_val e < 60"
  using assms by (auto simp: wf_hhmm_def split: list.splits)

lemma strptime_HM_wf:
  assumes "s = [a, b, CHR '':'', d, e]" "is_digit a" "is_digit b" "is_digit d" "is_digit e"
    "10 * digit_val a + digit_val b < 24" "10 * digit_val d + digit_val e < 60"
  shows "strptime_HM (Some s) = Inr (60 * (10 * digit_val a + digit_val b) + (10 * digit_val d + digit_val e))"
  using assms is_digit_not_colon[of a] is_digit_not_colon[of b]
  by (simp add: strptime_HM_def)

lemma strptime_HM_total:
  assumes "wf_hhmm s"
  obtains t where "strptime_HM (Some s) = Inr t" "t < 1440"
proof -
  from assms obtain a b d e where s: "s = [a, b, CHR '':'', d, e]" "is_digit a" "is_digit b" "is_digit d" "is_digit e"
    "10 * digit_val a + digit_val b < 24" "10 * digit_val d + digit_val e < 60"
    by (rule wf_hhmm_shape)
  have "strptime_HM (Some s) = Inr (60 * (10 * digit_val a + digit_val b) + (10 * digit_val d + digit_val e))"
    by (rule strptime_HM_wf[OF s])
  moreover have "60 * (10 * digit_val a + digit_val b) + (10 * digit_val d + digit_val e) < 1440"
    using s(6,7) by (rule minute_of_day_bound)
  ultimately show ?thesis using that by blast
qed

lemma strptime_HM_inj:
  assumes "wf_hhmm s" "wf_hhmm s'" "strptime_HM (Some s) = strptime_HM (Some s')"
  shows "s = s'"
proof -
  from assms(1) obtain a b d e where s: "s = [a, b, CHR '':'', d, e]" "is_digit a" "is_digit b" "is_digit d" "is_digit e"
    "10 * digit_val a + digit_val b < 24" "10 * digit_val d + digit_val e < 60"
    by (rule wf_hhmm_shape)
  from assms(2) obtain a' b' d' e' where s': "s' = [a', b', CHR '':'', d', e']" "is_digit a'" "is_digit b'" "is_digit d'" "is_digit e'"
    "10 * digit_val a' + digit_val b' < 24" "10 * digit_val d' + digit_val e' < 60"
    by (rule wf_hhmm_shape)
  have eq: "60 * (10 * digit_val a + digit_val b) + (10 * digit_val d + digit_val e)
      = 60 * (10 * digit_val a' + digit_val b') + (10 * digit_val d' + digit_val e')"
    using assms(3) strptime_HM_wf[OF s] strptime_HM_wf[OF s'] by simp
  have hm: "10 * digit_val a + digit_val b = 10 * digit_val a' + digit_val b' \<and>
          10 * digit_val d + digit_val e = 10 * digit_val d' + digit_val e'"
    by (rule split_60[OF eq s(7) s'(7)])
  have "digit_val a = digit_val a' \<and> digit_val b = digit_val b'"
    using hm digit_val_lt_10[OF s(3)] digit_val_lt_10[OF s'(3)] by (intro split_10) simp_all
  moreover have "digit_val d = digit_val d' \<and> digit_val e = digit_val e'"
    using hm digit_val_lt_10[OF s(5)] digit_val_lt_10[OF s'(5)] by (intro split_10) simp_all
  ultimately show ?thesis
    using s s' by (simp add: digit_val_inj)
qed

lemma get_shift_duration_parsed:
  "strptime_HM a = Inr x \<Longrightarrow> strptime_HM b = Inr y \<Longrightarrow>
   get_shift_duration a b = Inr (fl (of_int (duration_minutes x y) / 60))"
  by (simp add: get_shift_duration_def bindE_def fdiv_def)

lemma duration_minutes_nonneg: "x < 1440 \<Longrightarrow> 0 \<le> duration_minutes x y"
  by (simp add: duration_minutes_def)

lemma duration_minutes_wrap: "x \<noteq> y \<Longrightarrow> duration_minutes x y + duration_minutes y x = 1440"
  by (simp add: duration_minutes_def)

section \<open>Claims about the duration calculator\<close>

text \<open>
  Claim C3 fails on the code. \<^verbatim>\<open>get_shift_duration\<close> adds 24 hours only when the end is
  strictly earlier than the start (line 121), where the other midnight tests of the
  program (lines 295, 333, 818 and 871) use \<^verbatim>\<open><=\<close>. For the well-formed pair 08:00 and
  08:00 the result is 0 hours, not 24: a shift created from 08:00 to 08:00 on day 100
  and approved is paid 0 hours, while the rest check takes it to end at 08:00 on day
  101 and rejects a start at 14:00 on that day.
\<close>

theorem get_shift_duration_equal_times:
  "wf_hhmm ''08:00'' \<and>
   get_shift_duration (Some ''08:00'') (Some ''08:00'') = Inr 0 \<and>
   get_shift_duration (Some ''08:00'') (Some ''08:00'') \<noteq> Inr 24 \<and>
   admin_manage_shifts [emp_morning] form_same_times [] =
     (Created ''shift_1'', [(''shift_1'', new_shift form_same_times)]) \<and>
   calculate_pay (new_shift form_same_times) 20 = Inr (Some 0) \<and>
   shift_end_dt (new_shift form_same_times) = Inr (combine 101 (60 * 8)) \<and>
   downtime_violation [(''shift_1'', new_shift form_same_times)] (combine 101 (60 * 14)) ''emp1'' =
     Inr True"
  by code_simp

text \<open>
  Claim C9, as amended. For well-formed HH:MM arguments the result is never negative;
  when the two differ, the two elapsed times add up to exactly 1440 minutes before the
  division by 3600 rounds, so the two results add up to 24 within \<open>24 / 2 ^ 53\<close>; and
  the duration from 22:00 to 06:00 is exactly 8.
\<close>

theorem get_shift_duration_wrap_symmetry:
  assumes "wf_hhmm s" and "wf_hhmm e"
  shows "\<exists>a b x y. strptime_HM (Some s) = Inr a \<and> strptime_HM (Some e) = Inr b \<and>
           get_shift_duration (Some s) (Some e) = Inr x \<and>
           get_shift_duration (Some e) (Some s) = Inr y \<and> 0 \<le> x \<and>
           (s \<noteq> e \<longrightarrow> duration_minutes a b + duration_minutes b a = 1440 \<and>
                       \<bar>x + y - 24\<bar> \<le> 24 / 2 ^ 53) \<and>
           get_shift_duration (Some ''22:00'') (Some ''06:00'') = Inr 8"
proof -
  from assms(1) obtain a where a: "strptime_HM (Some s) = Inr a" by (rule strptime_HM_total)
  from assms(2) obtain b where b: "strptime_HM (Some e) = Inr b" by (rule strptime_HM_total)
  define u :: rat where "u = of_int (duration_minutes a b) / 60"
  define v :: rat where "v = of_int (duration_minutes b a) / 60"
  have x: "get_shift_duration (Some s) (Some e) = Inr (fl u)"
    using a b by (simp add: get_shift_duration_parsed u_def)
  have y: "get_shift_duration (Some e) (Some s) = Inr (fl v)"
    using a b by (simp add: get_shift_duration_parsed v_def)
  have u0: "0 \<le> u" and v0: "0 \<le> v"
    using strptime_HM_bound[OF a] strptime_HM_bound[OF b]
    by (simp_all add: u_def v_def duration_minutes_nonneg)
  have nonneg: "0 \<le> fl u" using u0 by (rule fl_nonneg)
  have sym: "duration_minutes a b + duration_minutes b a = 1440 \<and> \<bar>fl u + fl v - 24\<bar> \<le> 24 / 2 ^ 53"
    if "s \<noteq> e"
  proof -
    have ab: "a \<noteq> b" using that assms a b strptime_HM_inj[of s e] by auto
    have m: "duration_minutes a b + duration_minutes b a = 1440"
      using ab by (rule duration_minutes_wrap)
    have "u + v = of_int (duration_minutes a b + duration_minutes b a) / 60"
      by (simp add: u_def v_def add_divide_distrib)
    then have uv: "u + v = 24" using m by simp
    have "\<bar>fl u - u\<bar> \<le> u / 2 ^ 53" "\<bar>fl v - v\<bar> \<le> v / 2 ^ 53"
      using fl_rel_err[of u] fl_rel_err[of v] u0 v0 by simp_all
    then have "\<bar>fl u - u\<bar> + \<bar>fl v - v\<bar> \<le> (u + v) / 2 ^ 53"
      by (simp only: add_divide_distrib add_mono)
    moreover have "\<bar>fl u + fl v - (u + v)\<bar> \<le> \<bar>fl u - u\<bar> + \<bar>fl v - v\<bar>"
      by linarith
    ultimately have "\<bar>fl u + fl v - (u + v)\<bar> \<le> (u + v) / 2 ^ 53"
      by (rule order_trans[rotated])
    then show ?thesis using m uv by simp
  qed
  have ex: "get_shift_duration (Some ''22:00'') (Some ''06:00'') = Inr 8" by code_simp
  show ?thesis using a b x y nonneg sym ex by blast
qed

theorem get_shift_duration_wrap_symmetry_witness:
  "wf_hhmm ''22:00'' \<and> wf_hhmm ''06:00'' \<and>
   get_shift_duration (Some ''22:00'') (Some ''06:00'') = Inr 8"
proof -
  have w: "wf_hhmm ''22:00''" "wf_hhmm ''06:00''" by code_simp+
  show ?thesis using get_shift_duration_wrap_symmetry[OF w] w by blast
qed

theorem get_shift_duration_symmetry_counterexample:
  "wf_hhmm ''00:00'' \<and> wf_hhmm ''00:01'' \<and> ''00:00'' \<noteq> ''00:01'' \<and>
   get_shift_duration (Some ''00:00'') (Some ''00:01'') =
     Inr (4803839602528529 / 288230376151711744) \<and>
   get_shift_duration (Some ''00:01'') (Some ''00:00'') =
     Inr (1687677047860975 / 70368744177664) \<and>
   fsub 24 (1687677047860975 / 70368744177664) \<noteq> 4803839602528529 / 288230376151711744"
  by code_simp

section \<open>Properties of the rest check and of creation\<close>

subsection \<open>The rest check\<close>

lemma emp_shifts_of_map:
  assumes "\<And>s. assigned_employees (g s) = assigned_employees s" "\<And>s. date (g s) = date s"
  shows "emp_shifts_of u (map g ss) =
           (case emp_shifts_of u ss of Inl e \<Rightarrow> Inl e | Inr r \<Rightarrow> Inr (map g r))"
  by (induction ss) (auto simp: assms bindE_def split: sum.splits)

lemma latest_end_loop_map:
  assumes "\<And>s. shift_end_dt (g s) = shift_end_dt s"
  shows "latest_end_loop p (map g es) acc = latest_end_loop p es acc"
  by (induction es arbitrary: acc) (auto simp: assms bindE_def split: sum.splits)

lemma shift_end_dt_status: "shift_end_dt (s\<lparr>status := x\<rparr>) = shift_end_dt s"
  by (simp add: shift_end_dt_def)

lemma downtime_violation_status:
  "downtime_violation (map (\<lambda>(k, s). (k, s\<lparr>status := f s\<rparr>)) shifts) p e =
   downtime_violation shifts p e"
proof -
  have m: "map snd (map (\<lambda>(k, s). (k, s\<lparr>status := f s\<rparr>)) shifts) =
        map (\<lambda>s. s\<lparr>status := f s\<rparr>) (map snd shifts)"
    by (induction shifts) auto
  show ?thesis
    unfolding downtime_violation_def m
    by (subst emp_shifts_of_map)
       (auto simp: bindE_def latest_end_loop_map[where g="\<lambda>s. s\<lparr>status := f s\<rparr>", OF shift_end_dt_status]
             split: sum.splits)
qed

lemma shift_end_dt_has_times:
  assumes "has_times s (d, a, b)"
  shows "shift_end_dt s = Inr (spec_true_end d a b)"
  using assms
  by (auto simp: has_times_def shift_end_dt_def bindE_def dict_item_def strptime_date_def
        spec_true_end_def combine_def Let_def)

lemma merge_latest_Cons:
  "merge_latest acc (x # xs) =
     merge_latest (case acc of None \<Rightarrow> Some x | Some l \<Rightarrow> if x > l then Some x else Some l) xs"
  by (cases acc; cases xs) (auto simp: merge_latest_def max_def)

lemma latest_end_loop_spec:
  assumes "list_all2 has_times es tms"
  shows "latest_end_loop p es acc =
           Inr (merge_latest acc (filter (\<lambda>e. e \<le> p) (map (\<lambda>(d, a, b). spec_true_end d a b) tms)))"
  using assms
proof (induction es tms arbitrary: acc rule: list_all2_induct)
  case Nil
  then show ?case by (simp add: merge_latest_def)
next
  case (Cons s es t tms)
  obtain d a b where t: "t = (d, a, b)" by (cases t)
  have e: "shift_end_dt s = Inr (spec_true_end d a b)"
    using Cons.hyps(1) t by (simp add: shift_end_dt_has_times)
  show ?case
    by (simp add: e t bindE_def Cons.IH merge_latest_Cons)
qed

lemma merge_latest_None_le:
  "merge_latest None (filter (\<lambda>e. e \<le> p) ends) = Some l \<Longrightarrow>
   l \<le> p \<and> l = Max (set (filter (\<lambda>e. e \<le> p) ends))"
proof -
  assume a: "merge_latest None (filter (\<lambda>e. e \<le> p) ends) = Some l"
  let ?prior = "filter (\<lambda>e. e \<le> p) ends"
  have ne: "?prior \<noteq> []" using a by (auto simp: merge_latest_def)
  then have l: "l = Max (set ?prior)" using a by (simp add: merge_latest_def)
  have "set ?prior \<noteq> {}" using ne by (simp only: set_empty not_False_eq_True)
  then have "Max (set ?prior) \<in> set ?prior" by (intro Max_in) (rule finite_set)
  then have "Max (set ?prior) \<le> p" by simp
  then show ?thesis using l by simp
qed

lemma downtime_violation_spec:
  assumes "emp_shifts_of e (map snd shifts) = Inr es"
      and "list_all2 has_times es tms"
  shows "downtime_violation shifts p e =
           Inr (\<not> spec_rest_ok (map (\<lambda>(d, a, b). spec_true_end d a b) tms) p)"
proof -
  let ?ends = "map (\<lambda>(d, a, b). spec_true_end d a b) tms"
  let ?prior = "filter (\<lambda>e. e \<le> p) ?ends"
  have loop: "latest_end_loop p es None = Inr (merge_latest None ?prior)"
    using assms(2) by (rule latest_end_loop_spec)
  show ?thesis
  proof (cases "merge_latest None ?prior")
    case None
    then have "?prior = []" by (auto simp: merge_latest_def split: if_splits)
    then show ?thesis
      using None by (simp add: downtime_violation_def assms(1) loop bindE_def spec_rest_ok_def)
  next
    case (Some l)
    from merge_latest_None_le[OF Some] have l: "l \<le> p" "l = Max (set ?prior)" by simp_all
    have ne: "?prior \<noteq> []" using Some by (auto simp: merge_latest_def)
    have "(hours_diff p l < 12) = (p - l < 720)" using l(1) by (rule hours_diff_lt_12)
    then show ?thesis
      using Some ne l(2)
      by (simp add: downtime_violation_def assms(1) loop bindE_def spec_rest_ok_def Let_def not_le)
  qed
qed

lemma night_shift_has_times: "has_times (night_shift d st) (d, 1320, 360)"
  by (simp add: has_times_def night_shift_def dummy_shift_def dict_get_def)
     (simp add: strptime_HM_def is_digit_def digit_val_def)

lemma emp_shifts_of_filter:
  assumes "\<forall>s \<in> set ss. assigned_employees s \<noteq> Null"
  shows "emp_shifts_of e ss = Inr (filter (\<lambda>s. assigned_to e s \<and> present (date s)) ss)"
  using assms
  by (induction ss)
     (auto simp: bindE_def py_in_def dict_get_def assigned_to_def present_def split: field.splits)

lemma list_all2_left: "list_all2 R xs ys \<Longrightarrow> x \<in> set xs \<Longrightarrow> \<exists>y. R x y"
  by (auto simp: list_all2_conv_all_nth in_set_conv_nth)

lemma emp_shifts_of_assigned:
  assumes "\<forall>(k, s) \<in> set shifts. assigned_employees s \<noteq> Null"
      and "list_all2 has_times (filter (assigned_to e) (map snd shifts)) tms"
  shows "emp_shifts_of e (map snd shifts) = Inr (filter (assigned_to e) (map snd shifts))"
proof -
  have n: "\<forall>s \<in> set (map snd shifts). assigned_employees s \<noteq> Null"
    using assms(1) by auto
  have "present (date s)" if "s \<in> set (filter (assigned_to e) (map snd shifts))" for s
  proof -
    from list_all2_left[OF assms(2) that] obtain t where "has_times s t" by blast
    then show ?thesis by (cases t) (simp add: has_times_def present_def)
  qed
  then have "filter (\<lambda>s. assigned_to e s \<and> present (date s)) (map snd shifts) =
        filter (assigned_to e) (map snd shifts)"
    by (intro filter_cong) auto
  then show ?thesis using emp_shifts_of_filter[OF n, of e] by simp
qed

lemma day_shift_not_emp1: "\<not> assigned_to ''emp1'' (day_shift d st)"
  by (simp add: assigned_to_def day_shift_def dummy_shift_def)

lemma night_shift_assigned: "assigned_to ''emp1'' (night_shift d st)"
  by (simp add: assigned_to_def night_shift_def dummy_shift_def)

lemma assigned_not_Null:
  "assigned_employees (night_shift d st) \<noteq> Null \<and> assigned_employees (day_shift d' st') \<noteq> Null"
  by (simp add: night_shift_def day_shift_def dummy_shift_def)

text \<open>
  Claim C4. Take a store in which no record has a \<^verbatim>\<open>null\<close> list of assigned employees,
  and an employee such that the records of the store that list this employee among
  their assigned employees, in store order, are dated and have parseable planned times.
  The rest check reports a violation for this employee exactly when the
  specification's rule rejects the proposal on those records: it accepts when none of
  them has its true end instant (its date combined with its end time, plus 24 hours
  when the end is numerically at or before the start) at or before the proposed start,
  or when the latest such instant is at least 12 hours before the proposed start.
  Records of other employees do not count. After a shift of \<open>emp1\<close> from 22:00 on day
  \<open>d\<close> to 06:00 on day \<open>d + 1\<close>, and with a shift of \<open>emp2\<close> ending at 14:00 on day
  \<open>d + 1\<close> in the store, a start of \<open>emp1\<close> at 18:00 on day \<open>d + 1\<close> (a gap of
  exactly 12 hours) is accepted and a start at 14:00 (a gap of 8 hours) is rejected.
\<close>

theorem rest_check_accepts_iff:
  assumes "\<forall>(k, s) \<in> set shifts. assigned_employees s \<noteq> Null"
      and "list_all2 has_times (filter (assigned_to e) (map snd shifts)) tms"
  shows "downtime_violation shifts p e =
           Inr (\<not> spec_rest_ok (map (\<lambda>(d, a, b). spec_true_end d a b) tms) p) \<and>
         downtime_violation [(k, night_shift d st), (k', day_shift (d + 1) st')]
           (combine (d + 1) (60 * 18)) ''emp1'' = Inr False \<and>
         downtime_violation [(k, night_shift d st), (k', day_shift (d + 1) st')]
           (combine (d + 1) (60 * 14)) ''emp1'' = Inr True"
proof -
  let ?ex = "[(k, night_shift d st), (k', day_shift (d + 1) st')]"
  have f: "filter (assigned_to ''emp1'') (map snd ?ex) = [night_shift d st]"
    by (simp add: day_shift_not_emp1 night_shift_assigned)
  have n: "\<forall>(k, s) \<in> set ?ex. assigned_employees s \<noteq> Null"
    using assigned_not_Null[of d st "d + 1" st'] by simp
  have h: "list_all2 has_times (filter (assigned_to ''emp1'') (map snd ?ex)) [(d, 1320, 360)]"
    unfolding f by (simp add: night_shift_has_times)
  have ex: "downtime_violation ?ex p' ''emp1'' =
              Inr (\<not> spec_rest_ok [spec_true_end d 1320 360] p')" for p'
    using downtime_violation_spec[OF emp_shifts_of_assigned[OF n h] h, of p'] by simp
  have "spec_rest_ok [spec_true_end d 1320 360] (combine (d + 1) (60 * 18))"
    by (simp add: spec_rest_ok_def spec_true_end_def combine_def)
  moreover have "\<not> spec_rest_ok [spec_true_end d 1320 360] (combine (d + 1) (60 * 14))"
    by (simp add: spec_rest_ok_def spec_true_end_def combine_def)
  ultimately show ?thesis
    using downtime_violation_spec[OF emp_shifts_of_assigned[OF assms] assms(2)] ex by simp
qed

theorem rest_check_accepts_iff_witness:
  "list_all (\<lambda>(k, s). assigned_employees s \<noteq> Null) two_emp_store \<and>
   list_all2 has_times (filter (assigned_to ''emp1'') (map snd two_emp_store)) [(100, 1320, 360)] \<and>
   list_all2 has_times (filter (assigned_to ''emp2'') (map snd two_emp_store)) [(101, 360, 840)] \<and>
   downtime_violation two_emp_store (combine 101 1080) ''emp1'' = Inr False \<and>
   downtime_violation two_emp_store (combine 101 840) ''emp1'' = Inr True \<and>
   downtime_violation two_emp_store (combine 101 1080) ''emp2'' = Inr True"
proof -
  have n: "\<forall>(k, s) \<in> set two_emp_store. assigned_employees s \<noteq> Null" by code_simp
  have n': "list_all (\<lambda>(k, s). assigned_employees s \<noteq> Null) two_emp_store" by code_simp
  have a: "list_all2 has_times (filter (assigned_to ''emp1'') (map snd two_emp_store)) [(100, 1320, 360)]"
    by code_simp
  have b: "list_all2 has_times (filter (assigned_to ''emp2'') (map snd two_emp_store)) [(101, 360, 840)]"
    by code_simp
  have s1: "\<not> spec_rest_ok (map (\<lambda>(d, a, b). spec_true_end d a b) [(100, 1320, 360)]) (combine 101 840)"
    by code_simp
  have s2: "spec_rest_ok (map (\<lambda>(d, a, b). spec_true_end d a b) [(100, 1320, 360)]) (combine 101 1080)"
    by code_simp
  have s3: "\<not> spec_rest_ok (map (\<lambda>(d, a, b). spec_true_end d a b) [(101, 360, 840)]) (combine 101 1080)"
    by code_simp
  have 1: "downtime_violation two_emp_store (combine 101 1080) ''emp1'' = Inr False"
    using rest_check_accepts_iff[OF n a, of "combine 101 1080", THEN conjunct1] s2 by simp
  have 2: "downtime_violation two_emp_store (combine 101 840) ''emp1'' = Inr True"
    using rest_check_accepts_iff[OF n a, of "combine 101 840", THEN conjunct1] s1 by simp
  have 3: "downtime_violation two_emp_store (combine 101 1080) ''emp2'' = Inr True"
    using rest_check_accepts_iff[OF n b, of "combine 101 1080", THEN conjunct1] s3 by simp
  from n' a b 1 2 3 show ?thesis by blast
qed


text \<open>
  Claim C2, as amended. The rest check never reads a shift's status: rewriting the
  statuses of the stored shifts in any way, to declined or from it, leaves the result
  of the check for every employee and every proposed start unchanged. So a declined
  shift counts as a prior shift like any other, and the counterexample shows one that
  causes a violation.
\<close>

theorem rest_check_ignores_status:
  "downtime_violation (map (\<lambda>(k, s). (k, s\<lparr>status := f s\<rparr>)) shifts) p e =
   downtime_violation shifts p e"
  by (rule downtime_violation_status)

theorem declined_shift_counts_counterexample:
  "status (night_shift 100 ''declined'') = Val ''declined'' \<and>
   downtime_violation [(''shift_1'', night_shift 100 ''declined'')] (combine 101 840) ''emp1'' = Inr True"
  by code_simp

subsection \<open>Creation\<close>

lemma downtime_violations_mem:
  assumes "downtime_violations shifts p es = Inr vs" "e \<in> set es"
    "downtime_violation shifts p e = Inr True"
  shows "e \<in> set vs"
  using assms
  by (induction es arbitrary: vs) (auto simp: bindE_def split: sum.splits if_splits)

lemma available_shift_types_Nil: "available_shift_types employees [] = Inr []"
  by (simp add: available_shift_types_def)

text \<open>
  Claim C8. When no employee is selected, or when some selected employee fails the
  12-hour rest check against the stored shifts at the proposed planned start, the run
  of the creation page leaves the shift store as it was and creates no shift.
\<close>

theorem create_refused_leaves_store:
  assumes "f_selected_employees form = [] \<or>
           (\<exists>e \<in> set (f_selected_employees form). \<exists>t.
              strptime_HM (Some (f_planned_start_time form)) = Inr t \<and>
              downtime_violation shifts (combine (f_shift_date form) t) e = Inr True)"
  shows "snd (admin_manage_shifts users form shifts) = shifts \<and>
         (\<forall>k. fst (admin_manage_shifts users form shifts) \<noteq> Created k)"
proof (cases "f_selected_employees form = []")
  case True
  then show ?thesis
    by (simp add: admin_manage_shifts_def available_shift_types_def)
next
  case False
  with assms obtain e t where e: "e \<in> set (f_selected_employees form)"
    and t: "strptime_HM (Some (f_planned_start_time form)) = Inr t"
    and v: "downtime_violation shifts (combine (f_shift_date form) t) e = Inr True"
    by blast
  have ne: "vs \<noteq> []"
    if "downtime_violations shifts (combine (f_shift_date form) t) (f_selected_employees form) = Inr vs"
    for vs
    using downtime_violations_mem[OF that e v] by auto
  show ?thesis
  proof (cases "downtime_violations shifts (combine (f_shift_date form) t) (f_selected_employees form)")
    case (Inl err)
    then show ?thesis
      by (simp add: admin_manage_shifts_def Let_def t split: sum.split)
  next
    case (Inr vs)
    then show ?thesis
      using ne[OF Inr]
      by (simp add: admin_manage_shifts_def Let_def t split: sum.split)
  qed
qed

theorem create_refused_leaves_store_witness:
  "(f_selected_employees form_short_rest = [] \<or>
    (\<exists>e \<in> set (f_selected_employees form_short_rest). \<exists>t.
       strptime_HM (Some (f_planned_start_time form_short_rest)) = Inr t \<and>
       downtime_violation [(''shift_1'', night_shift 100 ''accepted'')]
         (combine (f_shift_date form_short_rest) t) e = Inr True)) \<and>
   snd (admin_manage_shifts [emp_morning, emp_late] form_short_rest
          [(''shift_1'', night_shift 100 ''accepted'')]) =
     [(''shift_1'', night_shift 100 ''accepted'')]"
proof -
  have t: "strptime_HM (Some (f_planned_start_time form_short_rest)) = Inr 840" by code_simp
  have v: "downtime_violation [(''shift_1'', night_shift 100 ''accepted'')]
         (combine (f_shift_date form_short_rest) 840) ''emp1'' = Inr True" by code_simp
  have e: "''emp1'' \<in> set (f_selected_employees form_short_rest)" by (simp add: form_short_rest_def form_both_def)
  have h: "f_selected_employees form_short_rest = [] \<or>
    (\<exists>e \<in> set (f_selected_employees form_short_rest). \<exists>t.
       strptime_HM (Some (f_planned_start_time form_short_rest)) = Inr t \<and>
       downtime_violation [(''shift_1'', night_shift 100 ''accepted'')]
         (combine (f_shift_date form_short_rest) t) e = Inr True)"
    using t v e by blast
  show ?thesis
    using create_refused_leaves_store[OF h, of "[emp_morning, emp_late]"] h by blast
qed

text \<open>
  Claim C1 fails on the code. For two selected employees whose qualified sets are
  disjoint (morning and weekend morning for one, late and weekend night for the other),
  line 785 takes the union of the sets where its comment announces the types allowed
  for all selected employees, so the morning type is offered and the shift is created.
\<close>

theorem create_for_disjoint_employees:
  "set (allowed_of emp_morning) \<inter> set (allowed_of emp_late) = {} \<and>
   admin_manage_shifts [emp_morning, emp_late] form_both [] =
     (Created ''shift_1'', [(''shift_1'', new_shift form_both)])"
  by code_simp

section \<open>The invariant of the store\<close>

lemma dict_set_mem:
  "(k', s) \<in> set (dict_set k v st) \<Longrightarrow> (k', s) = (k, v) \<or> (k', s) \<in> set st"
  by (induction st) (auto split: if_splits)

lemma all_ok_dict_set:
  assumes "\<forall>(k, s) \<in> set st. shift_ok s" "shift_ok v"
  shows "\<forall>(k', s) \<in> set (dict_set k v st). shift_ok s"
  using assms dict_set_mem[of _ _ k v st] by blast

lemma user_shifts_of_subset: "user_shifts_of u st = Inr us \<Longrightarrow> set us \<subseteq> set st"
proof (induction st arbitrary: us)
  case Nil
  then show ?case by simp
next
  case (Cons kv st)
  obtain k v where kv: "kv = (k, v)" by (cases kv)
  from Cons.prems obtain b rest where r: "user_shifts_of u st = Inr rest"
    and us: "us = (if b then (k, v) # rest else rest)"
    by (auto simp: kv bindE_def split: sum.splits)
  have "set rest \<subseteq> set st" using r by (rule Cons.IH)
  then show ?case using us kv by auto
qed

lemma shift_types_not_manual: "dict_lookup k SHIFT_TYPES = Inr v \<Longrightarrow> k \<noteq> ''manual_payroll''"
  by (auto simp: dict_lookup_def SHIFT_TYPES_def split: if_splits)

lemma shift_types_mem_not_manual: "(k, a, b, w) \<in> set SHIFT_TYPES \<Longrightarrow> k \<noteq> ''manual_payroll''"
  by (auto simp: SHIFT_TYPES_def)

lemma new_shift_ok: "f_shift_type form \<noteq> ''manual_payroll'' \<Longrightarrow> shift_ok (new_shift form)"
  by (simp add: shift_ok_def new_shift_def present_def is_approved_def is_manual_def
        truthy_bool_def dict_get_def Let_def)

lemma manual_entry_ok: "shift_ok (manual_entry admin u d descr amount)"
  by (simp add: shift_ok_def manual_entry_def present_def)

lemma dummy_shift_ok: "stype \<noteq> ''manual_payroll'' \<Longrightarrow> shift_ok (dummy_shift d stype a b e adm st)"
  by (simp add: shift_ok_def dummy_shift_def present_def is_approved_def is_manual_def
        truthy_bool_def dict_get_def)

lemma auto_shift_ok: "stype \<noteq> ''manual_payroll'' \<Longrightarrow> shift_ok (auto_shift d stype a b e adm x y)"
  by (simp add: shift_ok_def auto_shift_def present_def is_manual_def dict_get_def)

lemma status_update_ok: "shift_ok v \<Longrightarrow> shift_ok (v\<lparr>status := x\<rparr>)"
  by (simp add: shift_ok_def is_approved_def is_manual_def)

lemma created_store:
  "fst (admin_manage_shifts users form st) = Created k \<longrightarrow>
     \<not> isl (dict_lookup (f_shift_type form) SHIFT_TYPES) \<and>
     snd (admin_manage_shifts users form st) = dict_set k (new_shift form) st"
  by (simp add: admin_manage_shifts_def Let_def split: sum.split)

lemma not_created_store:
  "(\<forall>k. fst (admin_manage_shifts users form st) \<noteq> Created k) \<longrightarrow>
     snd (admin_manage_shifts users form st) = st"
  by (simp add: admin_manage_shifts_def Let_def split: sum.split)

lemma create_ok:
  assumes "\<forall>(k, s) \<in> set st. shift_ok s"
  shows "\<forall>(k, s) \<in> set (snd (admin_manage_shifts users form st)). shift_ok s"
proof (cases "\<exists>k. fst (admin_manage_shifts users form st) = Created k")
  case True
  then obtain k where k: "fst (admin_manage_shifts users form st) = Created k" by blast
  with created_store[of users form st k]
  have l: "\<not> isl (dict_lookup (f_shift_type form) SHIFT_TYPES)"
    and e: "snd (admin_manage_shifts users form st) = dict_set k (new_shift form) st"
    by simp_all
  have "f_shift_type form \<noteq> ''manual_payroll''"
    using l shift_types_not_manual[of "f_shift_type form"]
    by (cases "dict_lookup (f_shift_type form) SHIFT_TYPES") auto
  then have "shift_ok (new_shift form)" by (rule new_shift_ok)
  with assms show ?thesis unfolding e by (rule all_ok_dict_set)
next
  case False
  with not_created_store[of users form st] show ?thesis using assms by simp
qed

lemma respond_ok:
  assumes "\<forall>(k, s) \<in> set st. shift_ok s"
  shows "\<forall>(k, s) \<in> set (snd (employee_respond u shift_id accept st)). shift_ok s"
proof (cases "user_shifts_of u st")
  case (Inl e)
  then show ?thesis using assms by (simp add: employee_respond_def)
next
  case (Inr us)
  show ?thesis
  proof (cases "map_of (filter (\<lambda>(k, v). is_pending v) us) shift_id")
    case None
    then show ?thesis using assms Inr by (simp add: employee_respond_def)
  next
    case (Some v)
    then have "(shift_id, v) \<in> set us" by (auto dest: map_of_SomeD)
    then have "(shift_id, v) \<in> set st" using user_shifts_of_subset[OF Inr] by blast
    then have "shift_ok v" using assms by blast
    then have "shift_ok (v\<lparr>status := Val (if accept then ''accepted'' else ''declined'')\<rparr>)"
      by (rule status_update_ok)
    from all_ok_dict_set[OF assms this] show ?thesis
      using Inr Some by (simp add: employee_respond_def)
  qed
qed

lemma approve_ok:
  assumes "\<forall>(k, s) \<in> set st. shift_ok s"
  shows "\<forall>(k, s) \<in> set (snd (admin_approve_shift shift_id partial st)). shift_ok s"
proof (cases "map_of (filter (\<lambda>(k, s). pending_approval s) st) shift_id")
  case None
  then show ?thesis using assms by (simp add: admin_approve_shift_def)
next
  case (Some s)
  then have mem: "(shift_id, s) \<in> set st" and pa: "pending_approval s"
    by (auto dest: map_of_SomeD)
  then have ok: "shift_ok s" using assms by blast
  then obtain ps pe where p: "planned_start s = Val ps" "planned_end s = Val pe"
    by (auto simp: shift_ok_def present_def split: field.splits)
  have nm: "\<not> is_manual s" using pa by (simp add: pending_approval_def is_manual_def)
  have "shift_ok (s\<lparr>approved := Val True, actual_start := to_field (Some a),
          actual_end := to_field (Some b), status := Val ''approved''\<rparr>)" for a b
    using ok nm p by (simp add: shift_ok_def present_def is_manual_def to_field_def)
  from all_ok_dict_set[OF assms this] show ?thesis
    using Some p assms
    by (auto simp: admin_approve_shift_def dict_item_def Let_def split: option.splits prod.splits)
qed

lemma manual_ok:
  assumes "\<forall>(k, s) \<in> set st. shift_ok s"
  shows "\<forall>(k, s) \<in> set (snd (manual_add_payroll_entry k' admin u d descr amount st)). shift_ok s"
  using assms all_ok_dict_set[OF assms manual_entry_ok]
  by (simp add: manual_add_payroll_entry_def)

lemma reachable_shift_ok: "reachable st \<Longrightarrow> \<forall>(k, s) \<in> set st. shift_ok s"
proof (induction rule: reachable.induct)
  case r_empty
  then show ?case by simp
next
  case (r_create st users form)
  from r_create.IH show ?case by (rule create_ok)
next
  case (r_respond st u shift_id accept)
  from r_respond.IH show ?case by (rule respond_ok)
next
  case (r_approve st shift_id partial)
  from r_approve.IH show ?case by (rule approve_ok)
next
  case (r_manual st k admin selected_user entry_date descr amount)
  from r_manual.IH show ?case by (rule manual_ok)
next
  case (r_dummy st stype start_time end_time wd st' k d employee admin)
  from r_dummy.hyps(2) have "stype \<noteq> ''manual_payroll''" by (rule shift_types_mem_not_manual)
  then have "shift_ok (dummy_shift d stype start_time end_time employee admin st')"
    by (rule dummy_shift_ok)
  with r_dummy.IH show ?case by (rule all_ok_dict_set)
next
  case (r_auto st stype start_time end_time wd k d employee admin a_start a_end)
  from r_auto.hyps(2) have "stype \<noteq> ''manual_payroll''" by (rule shift_types_mem_not_manual)
  then have "shift_ok (auto_shift d stype start_time end_time employee admin a_start a_end)"
    by (rule auto_shift_ok)
  with r_auto.IH show ?case by (rule all_ok_dict_set)
next
  case (r_dummy_payroll st k admin selected_user d descr amount)
  from r_dummy_payroll.IH manual_entry_ok show ?case by (rule all_ok_dict_set)
qed

lemma example_store_reachable: "reachable example_store"
proof -
  have 1: "reachable (snd (admin_manage_shifts [emp_morning] form_approved []))"
    by (rule r_create[OF r_empty])
  have 2: "reachable (snd (manual_add_payroll_entry ''manual_payroll_1'' ''admin1'' ''emp1'' 100
             ''Bonus'' 50 (snd (admin_manage_shifts [emp_morning] form_approved []))))"
    by (rule r_manual[OF 1])
  have m: "(''night'', ''22:00'', ''06:00'', True) \<in> set SHIFT_TYPES"
    by (simp add: SHIFT_TYPES_def)
  have p: "''pending'' \<in> {''pending'', ''accepted''}" by simp
  have 3: "reachable (dict_set ''dummy_pending_1''
             (dummy_shift 100 ''night'' ''22:00'' ''06:00'' ''emp1'' ''admin1'' ''pending'')
             (snd (manual_add_payroll_entry ''manual_payroll_1'' ''admin1'' ''emp1'' 100
                ''Bonus'' 50 (snd (admin_manage_shifts [emp_morning] form_approved [])))))"
    by (rule r_dummy[OF 2 m p])
  have e: "example_store = dict_set ''dummy_pending_1''
             (dummy_shift 100 ''night'' ''22:00'' ''06:00'' ''emp1'' ''admin1'' ''pending'')
             (snd (manual_add_payroll_entry ''manual_payroll_1'' ''admin1'' ''emp1'' 100
                ''Bonus'' 50 (snd (admin_manage_shifts [emp_morning] form_approved []))))"
    by code_simp
  show ?thesis unfolding e by (rule 3)
qed

lemma present_not_Null: "present f \<Longrightarrow> f \<noteq> Null"
  by (auto simp: present_def)

lemma map_of_dict_set:
  "map_of (dict_set k v st) k' = (if k' = k then Some v else map_of st k')"
  by (induction st) auto

lemma approve_store:
  assumes "\<forall>(k, s) \<in> set st. shift_ok s"
      and "fst (admin_approve_shift shift_id partial st) = Approved"
  shows "\<exists>s0 a b. (shift_id, s0) \<in> set st \<and> pending_approval s0 \<and>
           (case partial of
              None \<Rightarrow> planned_start s0 = Val a \<and> planned_end s0 = Val b
            | Some (x, y) \<Rightarrow> a = x \<and> b = y) \<and>
           snd (admin_approve_shift shift_id partial st) =
             dict_set shift_id
               (s0\<lparr>approved := Val True, actual_start := Val a, actual_end := Val b,
                    status := Val ''approved''\<rparr>) st"
proof (cases "map_of (filter (\<lambda>(k, s). pending_approval s) st) shift_id")
  case None
  then show ?thesis using assms(2) by (simp add: admin_approve_shift_def)
next
  case (Some s)
  then have mem: "(shift_id, s) \<in> set st" and pa: "pending_approval s"
    by (auto dest: map_of_SomeD)
  then have ok: "shift_ok s" using assms(1) by blast
  then obtain ps pe where p: "planned_start s = Val ps" "planned_end s = Val pe"
    by (auto simp: shift_ok_def present_def split: field.splits)
  show ?thesis
  proof (cases partial)
    case None
    have "snd (admin_approve_shift shift_id partial st) =
             dict_set shift_id
               (s\<lparr>approved := Val True, actual_start := Val ps, actual_end := Val pe,
                    status := Val ''approved''\<rparr>) st"
      using Some None p by (simp add: admin_approve_shift_def dict_item_def to_field_def)
    then show ?thesis using mem pa p None by auto
  next
    case (Some xy)
    obtain x y where xy: "xy = (x, y)" by (cases xy)
    have "snd (admin_approve_shift shift_id partial st) =
             dict_set shift_id
               (s\<lparr>approved := Val True, actual_start := Val x, actual_end := Val y,
                    status := Val ''approved''\<rparr>) st"
      using \<open>map_of (filter (\<lambda>(k, s). pending_approval s) st) shift_id = Some s\<close> Some xy p assms(2)
      by (simp add: admin_approve_shift_def dict_item_def to_field_def Let_def split: if_splits)
    then show ?thesis using mem pa Some xy by auto
  qed
qed

lemma not_approved_store:
  "fst (admin_approve_shift shift_id partial st) \<noteq> Approved \<Longrightarrow>
   snd (admin_approve_shift shift_id partial st) = st"
  by (auto simp: admin_approve_shift_def Let_def split: option.splits sum.splits if_splits)

lemma respond_store:
  assumes "fst (employee_respond u shift_id accept st) = Responded"
  shows "\<exists>v. (shift_id, v) \<in> set st \<and> is_pending v \<and>
           snd (employee_respond u shift_id accept st) =
             dict_set shift_id (v\<lparr>status := Val (if accept then ''accepted'' else ''declined'')\<rparr>) st"
proof (cases "user_shifts_of u st")
  case (Inl e)
  then show ?thesis using assms by (simp add: employee_respond_def)
next
  case (Inr us)
  show ?thesis
  proof (cases "map_of (filter (\<lambda>(k, v). is_pending v) us) shift_id")
    case None
    then show ?thesis using assms Inr by (simp add: employee_respond_def)
  next
    case (Some v)
    then have "(shift_id, v) \<in> set us" and pv: "is_pending v" by (auto dest: map_of_SomeD)
    then have "(shift_id, v) \<in> set st" using user_shifts_of_subset[OF Inr] by blast
    then show ?thesis using Inr Some pv by (auto simp: employee_respond_def)
  qed
qed

lemma not_responded_store:
  "fst (employee_respond u shift_id accept st) \<noteq> Responded \<Longrightarrow>
   snd (employee_respond u shift_id accept st) = st"
  by (auto simp: employee_respond_def split: option.splits sum.splits)

lemma manual_store_added:
  "fst (manual_add_payroll_entry k admin su d descr amount st) = Added k' \<Longrightarrow>
   k' = k \<and>
   snd (manual_add_payroll_entry k admin su d descr amount st) =
     dict_set k (manual_entry admin su d descr amount) st"
  by (auto simp: manual_add_payroll_entry_def split: if_splits)

lemma approval_store_reachable: "reachable approval_store"
  unfolding approval_store_def accepted_store_def pending_store_def
  by (intro r_approve r_respond r_create r_empty)

text \<open>
  Claim C7. Every record of a store that the program can reach from the empty one, by
  creating shifts, accepting, declining, approving, adding manual payroll entries and
  generating demo data, and whose approved flag is true, has non-null actual start and
  end times; a manual payroll entry moreover has a non-null amount. Each operation
  does what the invariant needs:
  \<^item> a shift created with initial status approved has approved true and its actual
    times equal to the planned ones, and a creation writes that record and nothing else;
  \<^item> an approval on a reachable store writes, under the approved shift's key, the old
    record with approved set to true, status set to approved, and the actual times set
    to the planned times (full approval) or to the two times entered (partial
    approval); a run of the page that approves nothing leaves the store as it was;
  \<^item> adding a manual payroll entry writes a record with approved true and the amount
    entered;
  \<^item> accepting or declining writes, under the shift's key, the old record with only
    its status changed; a run that responds to nothing leaves the store as it was;
  \<^item> writing under one key leaves the records under all other keys as they were.
\<close>

theorem approved_record_has_actual_times:
  "(reachable st \<and> (k, s) \<in> set st \<and> is_approved s \<longrightarrow>
      present (actual_start s) \<and> present (actual_end s) \<and>
      (is_manual s \<longrightarrow> present (manual_amount s))) \<and>
   (f_initial_shift_status form = ''approved'' \<longrightarrow>
      approved (new_shift form) = Val True \<and>
      actual_start (new_shift form) = Val (f_planned_start_time form) \<and>
      actual_end (new_shift form) = Val (f_planned_end_time form)) \<and>
   (fst (admin_manage_shifts users form st1) = Created k1 \<longrightarrow>
      snd (admin_manage_shifts users form st1) = dict_set k1 (new_shift form) st1) \<and>
   (reachable st2 \<and> fst (admin_approve_shift shift_id partial st2) = Approved \<longrightarrow>
      (\<exists>s0 a b. (shift_id, s0) \<in> set st2 \<and>
         (case partial of
            None \<Rightarrow> planned_start s0 = Val a \<and> planned_end s0 = Val b
          | Some (x, y) \<Rightarrow> a = x \<and> b = y) \<and>
         snd (admin_approve_shift shift_id partial st2) =
           dict_set shift_id
             (s0\<lparr>approved := Val True, actual_start := Val a, actual_end := Val b,
                  status := Val ''approved''\<rparr>) st2)) \<and>
   (fst (admin_approve_shift shift_id partial st2) \<noteq> Approved \<longrightarrow>
      snd (admin_approve_shift shift_id partial st2) = st2) \<and>
   (fst (manual_add_payroll_entry k3 admin su d descr amount st3) = Added k3' \<longrightarrow>
      snd (manual_add_payroll_entry k3 admin su d descr amount st3) =
        dict_set k3 (manual_entry admin su d descr amount) st3) \<and>
   approved (manual_entry admin su d descr amount) = Val True \<and>
   manual_amount (manual_entry admin su d descr amount) = Val amount \<and>
   is_manual (manual_entry admin su d descr amount) \<and>
   (fst (employee_respond u k4 accept st4) = Responded \<longrightarrow>
      (\<exists>v. (k4, v) \<in> set st4 \<and>
         snd (employee_respond u k4 accept st4) =
           dict_set k4 (v\<lparr>status := Val (if accept then ''accepted'' else ''declined'')\<rparr>) st4)) \<and>
   (fst (employee_respond u k4 accept st4) \<noteq> Responded \<longrightarrow>
      snd (employee_respond u k4 accept st4) = st4) \<and>
   map_of (dict_set k5 v5 st5) k6 = (if k6 = k5 then Some v5 else map_of st5 k6)"
proof (intro conjI impI)
  assume a: "reachable st \<and> (k, s) \<in> set st \<and> is_approved s"
  then have ok: "shift_ok s" using reachable_shift_ok[of st] by blast
  then show "present (actual_start s)" "present (actual_end s)"
    using a by (simp_all add: shift_ok_def)
  show "present (manual_amount s)" if "is_manual s"
    using ok that by (simp add: shift_ok_def)
next
  assume "f_initial_shift_status form = ''approved''"
  then show "approved (new_shift form) = Val True"
    "actual_start (new_shift form) = Val (f_planned_start_time form)"
    "actual_end (new_shift form) = Val (f_planned_end_time form)"
    by (simp_all add: new_shift_def)
next
  assume "fst (admin_manage_shifts users form st1) = Created k1"
  then show "snd (admin_manage_shifts users form st1) = dict_set k1 (new_shift form) st1"
    using created_store[of users form st1 k1] by simp
next
  assume a: "reachable st2 \<and> fst (admin_approve_shift shift_id partial st2) = Approved"
  then have ok: "\<forall>(k, s) \<in> set st2. shift_ok s" using reachable_shift_ok by blast
  from approve_store[OF ok] a
  show "\<exists>s0 a b. (shift_id, s0) \<in> set st2 \<and>
         (case partial of
            None \<Rightarrow> planned_start s0 = Val a \<and> planned_end s0 = Val b
          | Some (x, y) \<Rightarrow> a = x \<and> b = y) \<and>
         snd (admin_approve_shift shift_id partial st2) =
           dict_set shift_id
             (s0\<lparr>approved := Val True, actual_start := Val a, actual_end := Val b,
                  status := Val ''approved''\<rparr>) st2"
    by blast
next
  assume "fst (admin_approve_shift shift_id partial st2) \<noteq> Approved"
  then show "snd (admin_approve_shift shift_id partial st2) = st2" by (rule not_approved_store)
next
  assume "fst (manual_add_payroll_entry k3 admin su d descr amount st3) = Added k3'"
  then show "snd (manual_add_payroll_entry k3 admin su d descr amount st3) =
        dict_set k3 (manual_entry admin su d descr amount) st3"
    using manual_store_added by blast
next
  show "approved (manual_entry admin su d descr amount) = Val True"
    "manual_amount (manual_entry admin su d descr amount) = Val amount"
    "is_manual (manual_entry admin su d descr amount)"
    by (simp_all add: manual_entry_def is_manual_def dict_get_def)
next
  assume "fst (employee_respond u k4 accept st4) = Responded"
  from respond_store[OF this]
  show "\<exists>v. (k4, v) \<in> set st4 \<and>
         snd (employee_respond u k4 accept st4) =
           dict_set k4 (v\<lparr>status := Val (if accept then ''accepted'' else ''declined'')\<rparr>) st4"
    by blast
next
  assume "fst (employee_respond u k4 accept st4) \<noteq> Responded"
  then show "snd (employee_respond u k4 accept st4) = st4" by (rule not_responded_store)
next
  show "map_of (dict_set k5 v5 st5) k6 = (if k6 = k5 then Some v5 else map_of st5 k6)"
    by (rule map_of_dict_set)
qed


theorem approved_record_has_actual_times_witness:
  "reachable approval_store \<and>
   (''shift_1'', snd (hd approval_store)) \<in> set approval_store \<and>
   is_approved (snd (hd approval_store)) \<and>
   present (actual_start (snd (hd approval_store))) \<and>
   present (actual_end (snd (hd approval_store))) \<and>
   actual_start (snd (hd approval_store)) = Val ''06:30'' \<and>
   actual_end (snd (hd approval_store)) = Val ''13:45'' \<and>
   f_initial_shift_status form_approved = ''approved'' \<and>
   actual_start (new_shift form_approved) = Val ''06:00'' \<and>
   fst (admin_manage_shifts [emp_morning] form_pending []) = Created ''shift_1'' \<and>
   pending_store = dict_set ''shift_1'' (new_shift form_pending) [] \<and>
   approved (new_shift form_pending) = Val False \<and>
   fst (employee_respond ''emp1'' ''shift_1'' True pending_store) = Responded \<and>
   accepted_store =
     dict_set ''shift_1'' ((new_shift form_pending)\<lparr>status := Val ''accepted''\<rparr>) pending_store \<and>
   reachable accepted_store \<and>
   fst (admin_approve_shift ''shift_1'' (Some (''06:30'', ''13:45'')) accepted_store) = Approved \<and>
   approval_store =
     dict_set ''shift_1''
       ((new_shift form_pending)\<lparr>approved := Val True, actual_start := Val ''06:30'',
          actual_end := Val ''13:45'', status := Val ''approved''\<rparr>) accepted_store \<and>
   fst (manual_add_payroll_entry ''manual_payroll_1'' ''admin1'' ''emp1'' 100 ''Bonus'' 50
          approval_store) = Added ''manual_payroll_1'' \<and>
   snd (manual_add_payroll_entry ''manual_payroll_1'' ''admin1'' ''emp1'' 100 ''Bonus'' 50
          approval_store) =
     dict_set ''manual_payroll_1'' (manual_entry ''admin1'' ''emp1'' 100 ''Bonus'' 50) approval_store"
proof -
  note t = approved_record_has_actual_times[where st = approval_store and k = "''shift_1''"
      and s = "snd (hd approval_store)" and form = form_pending and users = "[emp_morning]"
      and ?st1.0 = "[]" and ?k1.0 = "''shift_1''" and ?st2.0 = accepted_store
      and shift_id = "''shift_1''" and partial = "Some (''06:30'', ''13:45'')"
      and ?k3.0 = "''manual_payroll_1''" and admin = "''admin1''" and su = "''emp1''" and d = 100
      and descr = "''Bonus''" and amount = 50 and ?st3.0 = approval_store
      and ?k3'.0 = "''manual_payroll_1''" and u = "''emp1''" and ?k4.0 = "''shift_1''"
      and accept = True and ?st4.0 = pending_store]
  have r: "reachable approval_store" by (rule approval_store_reachable)
  have ra: "reachable accepted_store"
    unfolding accepted_store_def pending_store_def by (intro r_respond r_create r_empty)
  have m: "(''shift_1'', snd (hd approval_store)) \<in> set approval_store" by code_simp
  have a: "is_approved (snd (hd approval_store))" by code_simp
  have p: "present (actual_start (snd (hd approval_store))) \<and>
     present (actual_end (snd (hd approval_store)))"
    using t[THEN conjunct1] r m a by blast
  have v: "actual_start (snd (hd approval_store)) = Val ''06:30'' \<and>
     actual_end (snd (hd approval_store)) = Val ''13:45''" by code_simp
  have f: "f_initial_shift_status form_approved = ''approved'' \<and>
     actual_start (new_shift form_approved) = Val ''06:00''" by code_simp
  have c: "fst (admin_manage_shifts [emp_morning] form_pending []) = Created ''shift_1''"
    by code_simp
  have c': "pending_store = dict_set ''shift_1'' (new_shift form_pending) []"
    using t[THEN conjunct2, THEN conjunct2, THEN conjunct1] c by (simp add: pending_store_def)
  have n: "approved (new_shift form_pending) = Val False" by code_simp
  have e: "fst (employee_respond ''emp1'' ''shift_1'' True pending_store) = Responded"
    by code_simp
  have e': "accepted_store =
     dict_set ''shift_1'' ((new_shift form_pending)\<lparr>status := Val ''accepted''\<rparr>) pending_store"
    by code_simp
  have ap: "fst (admin_approve_shift ''shift_1'' (Some (''06:30'', ''13:45'')) accepted_store) = Approved"
    by code_simp
  have ap': "approval_store =
     dict_set ''shift_1''
       ((new_shift form_pending)\<lparr>approved := Val True, actual_start := Val ''06:30'',
          actual_end := Val ''13:45'', status := Val ''approved''\<rparr>) accepted_store"
    by code_simp
  have ma: "fst (manual_add_payroll_entry ''manual_payroll_1'' ''admin1'' ''emp1'' 100 ''Bonus'' 50
          approval_store) = Added ''manual_payroll_1''" by code_simp
  have ma': "snd (manual_add_payroll_entry ''manual_payroll_1'' ''admin1'' ''emp1'' 100 ''Bonus'' 50
          approval_store) =
     dict_set ''manual_payroll_1'' (manual_entry ''admin1'' ''emp1'' 100 ''Bonus'' 50) approval_store"
    by (rule t[THEN conjunct2, THEN conjunct2, THEN conjunct2, THEN conjunct2, THEN conjunct2,
          THEN conjunct1, THEN mp, OF ma])
  from r m a p v f c c' n e e' ra ap ap' ma ma' show ?thesis by blast
qed


text \<open>
  Claim C10. In the pay computation the planned times stand in for the actual ones only
  when the keys \<^verbatim>\<open>actual_start\<close> and \<^verbatim>\<open>actual_end\<close> are missing. For an approved regular
  shift with its planned times present and one of the two actual keys mapped to
  \<^verbatim>\<open>null\<close>, \<^verbatim>\<open>calculate_pay\<close> and the payroll line raise an exception (TypeError when
  \<^verbatim>\<open>actual_start\<close> is \<^verbatim>\<open>null\<close>) whatever the planned times are. No approved record of a
  reachable store has a \<^verbatim>\<open>null\<close> actual time, so that branch is not reached.
\<close>

theorem null_actual_time_raises:
  "(is_approved s \<and> \<not> is_manual s \<and> actual_start s = Absent \<and> actual_end s = Absent \<and>
    planned_start s = Val ps \<and> planned_end s = Val pe \<longrightarrow>
      calculate_pay s rate =
        bindE (get_shift_duration (Some ps) (Some pe)) (\<lambda>hours. Inr (Some (fmul hours rate)))) \<and>
   (is_approved s' \<and> \<not> is_manual s' \<and> present (planned_start s') \<and> present (planned_end s') \<and>
    (actual_start s' = Null \<or> actual_end s' = Null) \<longrightarrow>
      isl (calculate_pay s' rate) \<and> isl (payroll_line s' rate) \<and>
      (actual_start s' = Null \<longrightarrow> calculate_pay s' rate = Inl TypeError)) \<and>
   (reachable st \<and> (k, s'') \<in> set st \<and> is_approved s'' \<longrightarrow>
      actual_start s'' \<noteq> Null \<and> actual_end s'' \<noteq> Null)"
proof (intro conjI impI)
  assume "is_approved s \<and> \<not> is_manual s \<and> actual_start s = Absent \<and> actual_end s = Absent \<and>
    planned_start s = Val ps \<and> planned_end s = Val pe"
  then show "calculate_pay s rate =
        bindE (get_shift_duration (Some ps) (Some pe)) (\<lambda>hours. Inr (Some (fmul hours rate)))"
    by (simp add: calculate_pay_def is_approved_def is_manual_def worked_times_def
          dict_item_def dict_get_def bindE_def)
next
  assume a: "is_approved s' \<and> \<not> is_manual s' \<and> present (planned_start s') \<and> present (planned_end s') \<and>
    (actual_start s' = Null \<or> actual_end s' = Null)"
  then obtain ps pe where p: "planned_start s' = Val ps" "planned_end s' = Val pe"
    by (auto simp: present_def split: field.splits)
  have n: "get_shift_duration (dict_get (actual_start s') (Some ps)) (dict_get (actual_end s') (Some pe))
             \<in> {Inl TypeError, Inl ValueError}"
    using a
    by (auto simp: get_shift_duration_def bindE_def dict_get_def strptime_HM_def
          split: sum.splits option.splits list.splits if_splits)
  have cp: "calculate_pay s' rate =
      bindE (get_shift_duration (dict_get (actual_start s') (Some ps)) (dict_get (actual_end s') (Some pe)))
        (\<lambda>hours. Inr (Some (fmul hours rate)))"
    using a p
    by (simp add: calculate_pay_def is_approved_def is_manual_def worked_times_def
          dict_item_def bindE_def)
  show c: "isl (calculate_pay s' rate)" using n by (auto simp: cp bindE_def)
  show "isl (payroll_line s' rate)"
    using c a by (cases "calculate_pay s' rate") (simp_all add: payroll_line_def bindE_def)
  show "calculate_pay s' rate = Inl TypeError" if "actual_start s' = Null"
    using that by (simp add: cp get_shift_duration_def bindE_def dict_get_def strptime_HM_def)
next
  assume r: "reachable st \<and> (k, s'') \<in> set st \<and> is_approved s''"
  then have "shift_ok s''" using reachable_shift_ok[of st] by blast
  then have "present (actual_start s'')" "present (actual_end s'')"
    using r by (simp_all add: shift_ok_def)
  then show "actual_start s'' \<noteq> Null" "actual_end s'' \<noteq> Null"
    by (simp_all add: present_not_Null)
qed

theorem null_actual_time_raises_witness:
  "is_approved shift_absent_actual \<and> \<not> is_manual shift_absent_actual \<and>
   actual_start shift_absent_actual = Absent \<and> actual_end shift_absent_actual = Absent \<and>
   planned_start shift_absent_actual = Val ''06:00'' \<and>
   planned_end shift_absent_actual = Val ''14:00'' \<and>
   calculate_pay shift_absent_actual 20 = Inr (Some 160) \<and>
   is_approved shift_null_actual \<and> \<not> is_manual shift_null_actual \<and>
   present (planned_start shift_null_actual) \<and> present (planned_end shift_null_actual) \<and>
   actual_start shift_null_actual = Null \<and>
   calculate_pay shift_null_actual 20 = Inl TypeError \<and>
   reachable example_store \<and> (''shift_1'', new_shift form_approved) \<in> set example_store \<and>
   is_approved (new_shift form_approved) \<and>
   actual_start (new_shift form_approved) \<noteq> Null \<and> actual_end (new_shift form_approved) \<noteq> Null"
proof -
  have a: "is_approved shift_absent_actual \<and> \<not> is_manual shift_absent_actual \<and>
    actual_start shift_absent_actual = Absent \<and> actual_end shift_absent_actual = Absent \<and>
    planned_start shift_absent_actual = Val ''06:00'' \<and>
    planned_end shift_absent_actual = Val ''14:00''"
    by code_simp
  have b: "is_approved shift_null_actual \<and> \<not> is_manual shift_null_actual \<and>
    present (planned_start shift_null_actual) \<and> present (planned_end shift_null_actual) \<and>
    (actual_start shift_null_actual = Null \<or> actual_end shift_null_actual = Null)"
    by code_simp
  have b': "actual_start shift_null_actual = Null" by code_simp
  have c: "reachable example_store \<and> (''shift_1'', new_shift form_approved) \<in> set example_store \<and>
    is_approved (new_shift form_approved)"
    using example_store_reachable by (simp add: example_store_def) code_simp
  have d: "bindE (get_shift_duration (Some ''06:00'') (Some ''14:00''))
             (\<lambda>hours. Inr (Some (fmul hours 20))) = Inr (Some 160)"
    by code_simp
  show ?thesis
    using null_actual_time_raises[of shift_absent_actual "''06:00''" "''14:00''" 20
            shift_null_actual example_store "''shift_1''" "new_shift form_approved"]
      a b b' c d
    by simp
qed

section \<open>Properties of the payroll engine\<close>

lemma readable_date: "readable s \<Longrightarrow> \<exists>d. date s = Val d"
  by (auto simp: readable_def present_def split: field.splits)

lemma qualifies_spec:
  assumes "readable s" "date s = Val d"
  shows "qualifies u d1 d2 s d = Inr (spec_qualifies u d1 d2 s)"
  using assms
  by (cases "assigned_employees s")
     (auto simp: qualifies_def spec_qualifies_def readable_def bindE_def py_in_def dict_get_def
        is_approved_def)

lemma payroll_loop_step:
  assumes "readable s"
  shows "payroll_loop u rate d1 d2 ((k, s) # r) (th, tp, items) =
           (if spec_qualifies u d1 d2 s
            then bindE (payroll_line s rate) (\<lambda>(hours, pay, item).
                   payroll_loop u rate d1 d2 r (fadd th hours, fadd tp pay, items @ [item]))
            else payroll_loop u rate d1 d2 r (th, tp, items))"
proof -
  from readable_date[OF assms] obtain d where d: "date s = Val d" by blast
  show ?thesis
    by (simp add: d dict_item_def strptime_date_def bindE_def qualifies_spec[OF assms d])
qed

lemma payroll_loop_filter:
  assumes "\<forall>(k, s) \<in> set st. readable s"
  shows "payroll_loop u rate d1 d2 st acc =
         payroll_loop u rate d1 d2 (filter (\<lambda>(k, s). spec_qualifies u d1 d2 s) st) acc"
  using assms
proof (induction st arbitrary: acc)
  case Nil
  then show ?case by simp
next
  case (Cons ks st)
  obtain k s where ks: "ks = (k, s)" by (cases ks)
  obtain th tp items where acc: "acc = (th, tp, items)" by (cases acc)
  have r: "readable s" using Cons.prems ks by simp
  have ih: "payroll_loop u rate d1 d2 st a =
         payroll_loop u rate d1 d2 (filter (\<lambda>(k, s). spec_qualifies u d1 d2 s) st) a" for a
    using Cons.IH Cons.prems by simp
  show ?case
  proof (cases "spec_qualifies u d1 d2 s")
    case True
    then show ?thesis
      by (simp add: ks acc payroll_loop_step[OF r] ih del: payroll_loop.simps)
  next
    case False
    then show ?thesis
      by (simp add: ks acc payroll_loop_step[OF r] ih del: payroll_loop.simps)
  qed
qed

lemma payroll_loop_rows:
  assumes "list_all2 (\<lambda>(k, s) row. readable s \<and> spec_qualifies u d1 d2 s \<and> payroll_line s rate = Inr row) st rows"
  shows "payroll_loop u rate d1 d2 st (th, tp, items) =
           Inr (foldl fadd th (map fst rows), foldl fadd tp (map (fst \<circ> snd) rows),
                items @ map (snd \<circ> snd) rows)"
  using assms
proof (induction st rows arbitrary: th tp items rule: list_all2_induct)
  case Nil
  then show ?case by simp
next
  case (Cons ks st row rows)
  obtain k s where ks: "ks = (k, s)" by (cases ks)
  obtain h p it where row: "row = (h, p, it)" by (cases row)
  have r: "readable s" and q: "spec_qualifies u d1 d2 s" and l: "payroll_line s rate = Inr (h, p, it)"
    using Cons.hyps(1) ks row by simp_all
  show ?case
    by (simp add: ks row payroll_loop_step[OF r] q l bindE_def Cons.IH del: payroll_loop.simps)
qed

lemma regular_line:
  assumes "is_approved s" "\<not> is_manual s" "present (planned_start s)" "present (planned_end s)"
    "actual_start s \<noteq> Null" "actual_end s \<noteq> Null" "date s = Val d" "shift_type s = Val t"
    "get_shift_duration (spec_time (actual_start s) (planned_start s))
       (spec_time (actual_end s) (planned_end s)) = Inr h"
  shows "payroll_line s rate =
           Inr (h, fmul h rate,
                Regular_item (Some d) t (dict_get (planned_start s) None) (dict_get (planned_end s) None)
                  (dict_get (actual_start s) (Some ''N/A'')) (dict_get (actual_end s) (Some ''N/A''))
                  h (fmul h rate))"
proof -
  from assms(3,4) obtain ps pe where p: "planned_start s = Val ps" "planned_end s = Val pe"
    by (auto simp: present_def split: field.splits)
  have w: "worked_times s = Inr (spec_time (actual_start s) (planned_start s),
                               spec_time (actual_end s) (planned_end s))"
    using assms(5,6) p
    by (cases "actual_start s"; cases "actual_end s")
       (simp_all add: worked_times_def dict_item_def dict_get_def bindE_def spec_time_def)
  have cp: "calculate_pay s rate = Inr (Some (fmul h rate))"
    using assms(1,2,9) by (simp add: calculate_pay_def is_approved_def is_manual_def w bindE_def)
  show ?thesis
    using assms(2,7,8,9)
    by (simp add: payroll_line_def cp w is_manual_def bindE_def dict_item_def format_pay_def)
qed

lemma manual_line:
  assumes "is_approved s" "is_manual s" "manual_amount s = Val x" "date s = Val d"
  shows "payroll_line s rate = Inr (0, x, manual_item_of s)"
  using assms
  by (simp add: payroll_line_def calculate_pay_def is_approved_def is_manual_def bindE_def
        dict_item_def format_pay_def manual_item_of_def manual_amount_of_def dict_get_def)

lemma fadd_zero: "fadd 0 0 = 0"
  by (simp add: fadd_def fl_zero)

lemma foldl_fadd_zeros: "foldl fadd 0 (map (\<lambda>x. 0) xs) = 0"
  by (induction xs) (simp_all add: fadd_zero)

lemma foldl_fadd_err:
  "\<bar>foldl fadd 0 xs - sum_list xs\<bar> \<le>
     ((1 + 1 / 2 ^ 53) ^ length xs - 1) * sum_list (map abs xs)"
proof (induction xs rule: rev_induct)
  case Nil
  show ?case by simp
next
  case (snoc x xs)
  define u :: rat where "u = 1 / 2 ^ 53"
  define s' where "s' = foldl fadd 0 xs"
  define S where "S = sum_list xs"
  define A where "A = sum_list (map abs xs)"
  define c where "c = (1 + u) ^ length xs - 1"
  have u0: "0 \<le> u" by (simp add: u_def)
  have c0: "0 \<le> c" unfolding c_def using u0 by (simp add: one_le_power)
  have SA: "\<bar>S\<bar> \<le> A" unfolding S_def A_def by (rule sum_list_abs)
  have IH: "\<bar>s' - S\<bar> \<le> c * A"
    using snoc.IH by (simp add: s'_def S_def A_def c_def u_def)
  have r: "\<bar>fl (s' + x) - (s' + x)\<bar> \<le> \<bar>s' + x\<bar> * u"
    using fl_rel_err[of "s' + x"] by (simp add: u_def)
  have b1: "\<bar>s' + x\<bar> \<le> c * A + A + \<bar>x\<bar>" using IH SA by linarith
  have "\<bar>s' + x\<bar> * u \<le> (c * A + A + \<bar>x\<bar>) * u" using b1 u0 by (rule mult_right_mono)
  with r have r2: "\<bar>fl (s' + x) - (s' + x)\<bar> \<le> (c * A + A + \<bar>x\<bar>) * u" by linarith
  have "\<bar>fl (s' + x) - (S + x)\<bar> \<le> \<bar>fl (s' + x) - (s' + x)\<bar> + \<bar>s' - S\<bar>" by linarith
  then have "\<bar>fl (s' + x) - (S + x)\<bar> \<le> (c * A + A + \<bar>x\<bar>) * u + c * A"
    using r2 IH by linarith
  also have "\<dots> \<le> ((1 + u) * (c + 1) - 1) * (A + \<bar>x\<bar>)"
  proof -
    have "((1 + u) * (c + 1) - 1) * (A + \<bar>x\<bar>) - ((c * A + A + \<bar>x\<bar>) * u + c * A) =
            (c + u * c) * \<bar>x\<bar>"
      by (simp add: algebra_simps)
    moreover have "0 \<le> (c + u * c) * \<bar>x\<bar>" using c0 u0 by simp
    ultimately show ?thesis by linarith
  qed
  also have "(1 + u) * (c + 1) - 1 = (1 + u) ^ length (xs @ [x]) - 1" by (simp add: c_def)
  finally have fin: "\<bar>fl (s' + x) - (S + x)\<bar> \<le> ((1 + u) ^ length (xs @ [x]) - 1) * (A + \<bar>x\<bar>)" .
  have l: "foldl fadd 0 (xs @ [x]) = fl (s' + x)"
    unfolding s'_def by (simp only: foldl_append foldl.simps) (rule fadd_def)
  show ?case unfolding l using fin by (simp add: S_def A_def u_def)
qed

lemma filter_drop_unqualified:
  "\<not> spec_qualifies u d1 d2 s1 \<Longrightarrow>
   filter (\<lambda>(k, s). spec_qualifies u d1 d2 s) (st1 @ (k1, s1) # st2) =
   filter (\<lambda>(k, s). spec_qualifies u d1 d2 s) (st1 @ st2)"
  by simp

text \<open>
  Claim C5. On a store whose records all have a date and a list of assigned employees,
  the payroll computation gives the same result as on the sub-list of the records
  where the employee is among the assigned employees, approved is true and the date
  lies in the inclusive range, and its totals are the running float sums, in store
  order, of the hours and pay of those records. For such a record that is a regular
  shift with parseable times, the hours are the duration from the actual start to the
  actual end, each replaced by the planned time when its key is missing, and the pay is
  hours times the hourly rate. A record whose approved flag is not true can be removed
  without changing the result, whatever its status.
\<close>

theorem payroll_counts_qualifying_shifts:
  assumes "\<forall>(k, s) \<in> set st. readable s"
  shows "calculate_payroll_for_user st u rate d1 d2 =
           calculate_payroll_for_user (filter (\<lambda>(k, s). spec_qualifies u d1 d2 s) st) u rate d1 d2 \<and>
         (list_all2 (\<lambda>(k, s) row. payroll_line s rate = Inr row)
            (filter (\<lambda>(k, s). spec_qualifies u d1 d2 s) st) rows \<longrightarrow>
            calculate_payroll_for_user st u rate d1 d2 =
              Inr (foldl fadd 0 (map fst rows), foldl fadd 0 (map (fst \<circ> snd) rows),
                   map (snd \<circ> snd) rows)) \<and>
         (is_approved s0 \<and> \<not> is_manual s0 \<and> present (planned_start s0) \<and>
          present (planned_end s0) \<and> actual_start s0 \<noteq> Null \<and> actual_end s0 \<noteq> Null \<and>
          date s0 = Val d \<and> shift_type s0 = Val t \<and>
          get_shift_duration (spec_time (actual_start s0) (planned_start s0))
            (spec_time (actual_end s0) (planned_end s0)) = Inr h \<longrightarrow>
            payroll_line s0 rate =
              Inr (h, fmul h rate,
                   Regular_item (Some d) t (dict_get (planned_start s0) None)
                     (dict_get (planned_end s0) None)
                     (dict_get (actual_start s0) (Some ''N/A''))
                     (dict_get (actual_end s0) (Some ''N/A'')) h (fmul h rate))) \<and>
         (st = st1 @ (k1, s1) # st2 \<and> \<not> is_approved s1 \<longrightarrow>
            calculate_payroll_for_user st u rate d1 d2 =
              calculate_payroll_for_user (st1 @ st2) u rate d1 d2)"
proof (intro conjI impI)
  let ?Q = "\<lambda>(k, s). spec_qualifies u d1 d2 s"
  show f: "calculate_payroll_for_user st u rate d1 d2 =
           calculate_payroll_for_user (filter ?Q st) u rate d1 d2"
    unfolding calculate_payroll_for_user_def using assms by (rule payroll_loop_filter)
  {
    assume r: "list_all2 (\<lambda>(k, s) row. payroll_line s rate = Inr row) (filter ?Q st) rows"
    have "list_all2 (\<lambda>(k, s) row. readable s \<and> spec_qualifies u d1 d2 s \<and> payroll_line s rate = Inr row)
            (filter ?Q st) rows"
      using r by (rule list.rel_mono_strong) (use assms in auto)
    from payroll_loop_rows[OF this, of 0 0 "[]"]
    show "calculate_payroll_for_user st u rate d1 d2 =
              Inr (foldl fadd 0 (map fst rows), foldl fadd 0 (map (fst \<circ> snd) rows),
                   map (snd \<circ> snd) rows)"
      by (simp add: f) (simp add: calculate_payroll_for_user_def)
  }
  {
    assume "is_approved s0 \<and> \<not> is_manual s0 \<and> present (planned_start s0) \<and>
          present (planned_end s0) \<and> actual_start s0 \<noteq> Null \<and> actual_end s0 \<noteq> Null \<and>
          date s0 = Val d \<and> shift_type s0 = Val t \<and>
          get_shift_duration (spec_time (actual_start s0) (planned_start s0))
            (spec_time (actual_end s0) (planned_end s0)) = Inr h"
    then show "payroll_line s0 rate =
              Inr (h, fmul h rate,
                   Regular_item (Some d) t (dict_get (planned_start s0) None)
                     (dict_get (planned_end s0) None)
                     (dict_get (actual_start s0) (Some ''N/A''))
                     (dict_get (actual_end s0) (Some ''N/A'')) h (fmul h rate))"
      by (intro regular_line) simp_all
  }
  {
    assume a: "st = st1 @ (k1, s1) # st2 \<and> \<not> is_approved s1"
    then have nq: "\<not> spec_qualifies u d1 d2 s1" by (simp add: spec_qualifies_def)
    have r: "\<forall>(k, s) \<in> set (st1 @ st2). readable s" using assms a by auto
    have "calculate_payroll_for_user (st1 @ st2) u rate d1 d2 =
            calculate_payroll_for_user (filter ?Q (st1 @ st2)) u rate d1 d2"
      unfolding calculate_payroll_for_user_def using r by (rule payroll_loop_filter)
    then show "calculate_payroll_for_user st u rate d1 d2 =
              calculate_payroll_for_user (st1 @ st2) u rate d1 d2"
      using f a filter_drop_unqualified[OF nq, of st1 k1 st2] by simp
  }
qed

theorem payroll_counts_qualifying_shifts_witness:
  "list_all (\<lambda>(k, s). readable s) example_store \<and>
   list_all2 (\<lambda>(k, s) row. payroll_line s 20 = Inr row)
     (filter (\<lambda>(k, s). spec_qualifies ''emp1'' 0 200 s) example_store)
     [(8, 160, Regular_item (Some 100) ''morning'' (Some ''06:00'') (Some ''14:00'')
                 (Some ''06:00'') (Some ''14:00'') 8 160),
      (0, 50, Manual_item (Some 100) 50 (Some ''Bonus''))] \<and>
   is_approved (new_shift form_approved) \<and> \<not> is_manual (new_shift form_approved) \<and>
   get_shift_duration (spec_time (actual_start (new_shift form_approved)) (planned_start (new_shift form_approved)))
     (spec_time (actual_end (new_shift form_approved)) (planned_end (new_shift form_approved))) = Inr 8 \<and>
   example_store = take 2 example_store @ (''dummy_pending_1'', snd (example_store ! 2)) # [] \<and>
   \<not> is_approved (snd (example_store ! 2)) \<and>
   calculate_payroll_for_user example_store ''emp1'' 20 0 200 =
     Inr (8, 210,
          [Regular_item (Some 100) ''morning'' (Some ''06:00'') (Some ''14:00'')
             (Some ''06:00'') (Some ''14:00'') 8 160,
           Manual_item (Some 100) 50 (Some ''Bonus'')]) \<and>
   calculate_payroll_for_user example_store ''emp1'' 20 0 200 =
     calculate_payroll_for_user (take 2 example_store @ []) ''emp1'' 20 0 200"
proof -
  have r: "\<forall>(k, s) \<in> set example_store. readable s" by code_simp
  have l: "list_all2 (\<lambda>(k, s) row. payroll_line s 20 = Inr row)
     (filter (\<lambda>(k, s). spec_qualifies ''emp1'' 0 200 s) example_store)
     [(8, 160, Regular_item (Some 100) ''morning'' (Some ''06:00'') (Some ''14:00'')
                 (Some ''06:00'') (Some ''14:00'') 8 160),
      (0, 50, Manual_item (Some 100) 50 (Some ''Bonus''))]" by code_simp
  have s0: "is_approved (new_shift form_approved) \<and> \<not> is_manual (new_shift form_approved) \<and>
     present (planned_start (new_shift form_approved)) \<and>
     present (planned_end (new_shift form_approved)) \<and>
     actual_start (new_shift form_approved) \<noteq> Null \<and> actual_end (new_shift form_approved) \<noteq> Null \<and>
     date (new_shift form_approved) = Val 100 \<and> shift_type (new_shift form_approved) = Val ''morning'' \<and>
     get_shift_duration (spec_time (actual_start (new_shift form_approved)) (planned_start (new_shift form_approved)))
       (spec_time (actual_end (new_shift form_approved)) (planned_end (new_shift form_approved))) = Inr 8"
    by code_simp
  have e: "example_store = take 2 example_store @ (''dummy_pending_1'', snd (example_store ! 2)) # [] \<and>
     \<not> is_approved (snd (example_store ! 2))" by code_simp
  have v: "foldl fadd 0 [8, 0] = 8 \<and> foldl fadd 0 [160, 50] = (210::rat)" by code_simp
  note t = payroll_counts_qualifying_shifts[OF r, where u = "''emp1''" and ?d1.0 = 0 and ?d2.0 = 200
            and rate = 20 and ?s0.0 = "new_shift form_approved" and d = 100 and t = "''morning''"
            and h = 8 and ?st1.0 = "take 2 example_store" and ?k1.0 = "''dummy_pending_1''"
            and ?s1.0 = "snd (example_store ! 2)" and ?st2.0 = "[]"
            and rows = "[(8, 160, Regular_item (Some 100) ''morning'' (Some ''06:00'') (Some ''14:00'')
                 (Some ''06:00'') (Some ''14:00'') 8 160),
               (0, 50, Manual_item (Some 100) 50 (Some ''Bonus''))]"]
  have "calculate_payroll_for_user example_store ''emp1'' 20 0 200 =
     Inr (foldl fadd 0 [8, 0], foldl fadd 0 [160, 50],
          [Regular_item (Some 100) ''morning'' (Some ''06:00'') (Some ''14:00'')
             (Some ''06:00'') (Some ''14:00'') 8 160,
           Manual_item (Some 100) 50 (Some ''Bonus'')])"
    using t[THEN conjunct2, THEN conjunct1, THEN mp, OF l] by simp
  then have tot: "calculate_payroll_for_user example_store ''emp1'' 20 0 200 =
     Inr (8, 210,
          [Regular_item (Some 100) ''morning'' (Some ''06:00'') (Some ''14:00'')
             (Some ''06:00'') (Some ''14:00'') 8 160,
           Manual_item (Some 100) 50 (Some ''Bonus'')])"
    by (simp only: v)
  have rem: "calculate_payroll_for_user example_store ''emp1'' 20 0 200 =
     calculate_payroll_for_user (take 2 example_store @ []) ''emp1'' 20 0 200"
    by (rule t[THEN conjunct2, THEN conjunct2, THEN conjunct2, THEN mp, OF e])
  have r': "list_all (\<lambda>(k, s). readable s) example_store"
    using r by (simp only: list_all_iff)
  from r' l s0 e tot rem show ?thesis by blast
qed

text \<open>
  Claim C6, as amended. The line of a qualifying manual payroll entry has 0 hours and
  the entry's amount as pay, whatever the hourly rate, and records the description. On
  a store whose qualifying records are all manual entries with an amount, the total of
  hours is 0 and the total pay is the running float sum, in store order, of the
  amounts. Each addition rounds, so the total pay need not be the exact sum \<open>X\<close> of the
  amounts: it differs from \<open>X\<close> by at most \<open>(1 + 1 / 2 ^ 53) ^ n - 1\<close> times the sum of
  the absolute amounts, \<open>n\<close> being the number of entries. The counterexample has the three
  amounts 0.1, 0.2 and 0.3: their total pay is 0.6000000000000001 in this order and 0.6
  in the reverse order, and neither is their exact sum.
\<close>

theorem manual_entries_add_no_hours:
  "(is_approved s \<and> is_manual s \<and> manual_amount s = Val x \<and> date s = Val d \<longrightarrow>
      payroll_line s rate = Inr (0, x, manual_item_of s) \<and>
      payroll_line s rate' = payroll_line s rate) \<and>
   ((\<forall>(k, s) \<in> set st. readable s) \<and>
    (\<forall>(k, s) \<in> set st. spec_qualifies u d1 d2 s \<longrightarrow> is_manual s \<and> present (manual_amount s)) \<longrightarrow>
      calculate_payroll_for_user st u rate d1 d2 =
        Inr (0,
             foldl fadd 0 (map (manual_amount_of \<circ> snd) (filter (\<lambda>(k, s). spec_qualifies u d1 d2 s) st)),
             map (manual_item_of \<circ> snd) (filter (\<lambda>(k, s). spec_qualifies u d1 d2 s) st)) \<and>
      \<bar>foldl fadd 0 (map (manual_amount_of \<circ> snd) (filter (\<lambda>(k, s). spec_qualifies u d1 d2 s) st)) -
         sum_list (map (manual_amount_of \<circ> snd) (filter (\<lambda>(k, s). spec_qualifies u d1 d2 s) st))\<bar> \<le>
        ((1 + 1 / 2 ^ 53) ^ length (filter (\<lambda>(k, s). spec_qualifies u d1 d2 s) st) - 1) *
        sum_list (map (abs \<circ> manual_amount_of \<circ> snd)
                    (filter (\<lambda>(k, s). spec_qualifies u d1 d2 s) st)))"
proof (intro conjI impI)
  assume a: "is_approved s \<and> is_manual s \<and> manual_amount s = Val x \<and> date s = Val d"
  then show "payroll_line s rate = Inr (0, x, manual_item_of s)" by (intro manual_line) simp_all
  moreover from a have "payroll_line s rate' = Inr (0, x, manual_item_of s)"
    by (intro manual_line) simp_all
  ultimately show "payroll_line s rate' = payroll_line s rate" by simp
next
  let ?Q = "\<lambda>(k, s). spec_qualifies u d1 d2 s"
  let ?row = "\<lambda>(k, s). (0::rat, manual_amount_of s, manual_item_of s)"
  assume a: "(\<forall>(k, s) \<in> set st. readable s) \<and>
    (\<forall>(k, s) \<in> set st. spec_qualifies u d1 d2 s \<longrightarrow> is_manual s \<and> present (manual_amount s))"
  have line: "payroll_line s rate = Inr (0, manual_amount_of s, manual_item_of s)"
    if "(k, s) \<in> set st" "spec_qualifies u d1 d2 s" for k s
  proof -
    from that a have m: "is_manual s" "present (manual_amount s)" "readable s" by auto
    from m(2) obtain x where x: "manual_amount s = Val x"
      by (auto simp: present_def split: field.splits)
    from readable_date[OF m(3)] obtain d where d: "date s = Val d" by blast
    have ap: "is_approved s" using that(2) by (simp add: spec_qualifies_def)
    show ?thesis using manual_line[OF ap m(1) x d] x by (simp add: manual_amount_of_def)
  qed
  have "list_all2 (\<lambda>(k, s) row. readable s \<and> spec_qualifies u d1 d2 s \<and> payroll_line s rate = Inr row)
          (filter ?Q st) (map ?row (filter ?Q st))"
    using a line by (auto simp: list_all2_map2 list_all2_same)
  from payroll_loop_rows[OF this, of 0 0 "[]"]
  have "payroll_loop u rate d1 d2 (filter ?Q st) (0, 0, []) =
          Inr (foldl fadd 0 (map (\<lambda>x. 0) (filter ?Q st)),
               foldl fadd 0 (map (manual_amount_of \<circ> snd) (filter ?Q st)),
               map (manual_item_of \<circ> snd) (filter ?Q st))"
    by (simp add: comp_def case_prod_unfold)
  moreover have "payroll_loop u rate d1 d2 st (0, 0, []) =
          payroll_loop u rate d1 d2 (filter ?Q st) (0, 0, [])"
    using a by (intro payroll_loop_filter) simp
  ultimately show "calculate_payroll_for_user st u rate d1 d2 =
        Inr (0, foldl fadd 0 (map (manual_amount_of \<circ> snd) (filter ?Q st)),
             map (manual_item_of \<circ> snd) (filter ?Q st))"
    by (simp add: calculate_payroll_for_user_def foldl_fadd_zeros)
next
  let ?Q = "\<lambda>(k, s). spec_qualifies u d1 d2 s"
  show "\<bar>foldl fadd 0 (map (manual_amount_of \<circ> snd) (filter ?Q st)) -
         sum_list (map (manual_amount_of \<circ> snd) (filter ?Q st))\<bar> \<le>
        ((1 + 1 / 2 ^ 53) ^ length (filter ?Q st) - 1) *
        sum_list (map (abs \<circ> manual_amount_of \<circ> snd) (filter ?Q st))"
    using foldl_fadd_err[of "map (manual_amount_of \<circ> snd) (filter ?Q st)"]
    by (simp add: comp_assoc)
qed

theorem manual_entries_add_no_hours_witness:
  "is_approved (manual_entry ''admin1'' ''emp1'' 100 ''Bonus'' 50) \<and>
   is_manual (manual_entry ''admin1'' ''emp1'' 100 ''Bonus'' 50) \<and>
   payroll_line (manual_entry ''admin1'' ''emp1'' 100 ''Bonus'' 50) 20 =
     Inr (0, 50, Manual_item (Some 100) 50 (Some ''Bonus'')) \<and>
   list_all (\<lambda>(k, s). readable s) manual_store \<and>
   list_all (\<lambda>(k, s). is_manual s \<and> present (manual_amount s)) manual_store \<and>
   calculate_payroll_for_user manual_store ''emp1'' 20 0 200 =
     Inr (0, 75, [Manual_item (Some 100) 50 (Some ''Bonus''),
                  Manual_item (Some 101) 25 (Some ''Adjustment'')])"
proof -
  have a: "is_approved (manual_entry ''admin1'' ''emp1'' 100 ''Bonus'' 50) \<and>
     is_manual (manual_entry ''admin1'' ''emp1'' 100 ''Bonus'' 50) \<and>
     manual_amount (manual_entry ''admin1'' ''emp1'' 100 ''Bonus'' 50) = Val 50 \<and>
     date (manual_entry ''admin1'' ''emp1'' 100 ''Bonus'' 50) = Val 100" by code_simp
  have i: "manual_item_of (manual_entry ''admin1'' ''emp1'' 100 ''Bonus'' 50) =
     Manual_item (Some 100) 50 (Some ''Bonus'')" by code_simp
  have r: "(\<forall>(k, s) \<in> set manual_store. readable s) \<and>
     (\<forall>(k, s) \<in> set manual_store.
        spec_qualifies ''emp1'' 0 200 s \<longrightarrow> is_manual s \<and> present (manual_amount s))"
    by code_simp
  have v: "foldl fadd 0 (map (manual_amount_of \<circ> snd)
             (filter (\<lambda>(k, s). spec_qualifies ''emp1'' 0 200 s) manual_store)) = 75 \<and>
     map (manual_item_of \<circ> snd) (filter (\<lambda>(k, s). spec_qualifies ''emp1'' 0 200 s) manual_store) =
       [Manual_item (Some 100) 50 (Some ''Bonus''), Manual_item (Some 101) 25 (Some ''Adjustment'')]"
    by code_simp
  have r': "list_all (\<lambda>(k, s). readable s) manual_store \<and>
     list_all (\<lambda>(k, s). is_manual s \<and> present (manual_amount s)) manual_store"
    by code_simp
  note t = manual_entries_add_no_hours[where s = "manual_entry ''admin1'' ''emp1'' 100 ''Bonus'' 50"
            and x = 50 and d = 100 and rate = 20 and rate' = 20 and st = manual_store
            and u = "''emp1''" and ?d1.0 = 0 and ?d2.0 = 200]
  have l: "payroll_line (manual_entry ''admin1'' ''emp1'' 100 ''Bonus'' 50) 20 =
     Inr (0, 50, Manual_item (Some 100) 50 (Some ''Bonus''))"
    using t[THEN conjunct1, THEN mp, OF a] i by simp
  have tot: "calculate_payroll_for_user manual_store ''emp1'' 20 0 200 =
     Inr (0, 75, [Manual_item (Some 100) 50 (Some ''Bonus''),
                  Manual_item (Some 101) 25 (Some ''Adjustment'')])"
    using t[THEN conjunct2, THEN mp, OF r, THEN conjunct1] v by simp
  from a l r' tot show ?thesis by blast
qed

theorem manual_total_order_counterexample:
  "sum_list (map (manual_amount_of \<circ> snd) tenths_store) =
     21617278211378381 / 36028797018963968 \<and>
   calculate_payroll_for_user tenths_store ''emp1'' 20 0 200 =
     Inr (0, 1351079888211149 / 2251799813685248,
          [Manual_item (Some 100) (3602879701896397 / 36028797018963968) (Some ''Bonus''),
           Manual_item (Some 101) (3602879701896397 / 18014398509481984) (Some ''Expense''),
           Manual_item (Some 102) (5404319552844595 / 18014398509481984) (Some ''Adjustment'')]) \<and>
   calculate_payroll_for_user (rev tenths_store) ''emp1'' 20 0 200 =
     Inr (0, 5404319552844595 / 9007199254740992,
          [Manual_item (Some 102) (5404319552844595 / 18014398509481984) (Some ''Adjustment''),
           Manual_item (Some 101) (3602879701896397 / 18014398509481984) (Some ''Expense''),
           Manual_item (Some 100) (3602879701896397 / 36028797018963968) (Some ''Bonus'')]) \<and>
   (1351079888211149 / 2251799813685248 :: rat) \<noteq> 21617278211378381 / 36028797018963968 \<and>
   (5404319552844595 / 9007199254740992 :: rat) \<noteq> 21617278211378381 / 36028797018963968"
  by code_simp

end
